theory Spec2Isabelle
  imports Complex_Main "HOL-Library.Word"
begin

section \<open>JavaScript strings\<close>

text \<open>
  A JavaScript string is a sequence of UTF-16 code units: \<open>length\<close>, \<open>slice\<close>, \<open>trim\<close>,
  \<open>split\<close> and a regular expression without the \<open>u\<close> flag all work on code units.
  Literals of the source are written out as their code units.
\<close>

type_synonym code_unit = "16 word"
type_synonym jsstring = "code_unit list"

definition ascii :: "string \<Rightarrow> jsstring" where
  "ascii s = map of_char s"

text \<open>
  The code units removed by \<open>String.prototype.trim\<close> and matched by \<open>\s\<close>: WhiteSpace
  (TAB, VT, FF, SP, NBSP, ZWNBSP and the category Zs) and LineTerminator (LF, CR, LS, PS).
\<close>

definition isWhiteSpace :: "code_unit \<Rightarrow> bool" where
  "isWhiteSpace c \<longleftrightarrow>
     c = 0x09 \<or> c = 0x0A \<or> c = 0x0B \<or> c = 0x0C \<or> c = 0x0D \<or> c = 0x20 \<or> c = 0xA0 \<or>
     c = 0x1680 \<or> (0x2000 \<le> c \<and> c \<le> 0x200A) \<or> c = 0x2028 \<or> c = 0x2029 \<or>
     c = 0x202F \<or> c = 0x205F \<or> c = 0x3000 \<or> c = 0xFEFF"

text \<open>\<open>s.trim()\<close>\<close>

definition trim :: "jsstring \<Rightarrow> jsstring" where
  "trim s = rev (dropWhile isWhiteSpace (rev (dropWhile isWhiteSpace s)))"

text \<open>\<open>s.replace(/\s+/g, '')\<close>: every run of white space is deleted.\<close>

definition removeWhiteSpace :: "jsstring \<Rightarrow> jsstring" where
  "removeWhiteSpace s = filter (\<lambda>c. \<not> isWhiteSpace c) s"

text \<open>
  \<open>s.slice(start)\<close> with one argument: a negative start counts from the end and is
  clamped at 0, a start beyond the end is clamped at the length.
\<close>

definition slice :: "jsstring \<Rightarrow> int \<Rightarrow> jsstring" where
  "slice s start =
     (let len = int (length s);
          from = (if start < 0 then max (len + start) 0 else min start len)
      in drop (nat from) s)"

text \<open>
  The class \<open>[\<dots>]\<close> of the splitting expression: the ideographic full stop U+3002, the
  full-width full stop U+FF0E, \<open>.\<close>, \<open>!\<close>, \<open>?\<close>, and the full-width U+FF01 and U+FF1F.
\<close>

definition isTerminator :: "code_unit \<Rightarrow> bool" where
  "isTerminator c \<longleftrightarrow>
     c = 0x3002 \<or> c = 0xFF0E \<or> c = 0x2E \<or> c = 0x21 \<or> c = 0x3F \<or> c = 0xFF01 \<or> c = 0xFF1F"

text \<open>
  \<open>s.split(/[\<dots>]/)\<close> for a class of single code units: every separator ends a segment,
  empty segments are kept, and the text after the last separator (possibly empty) is the
  last segment. \<open>cur\<close> holds the current segment reversed.
\<close>

fun split_acc :: "(code_unit \<Rightarrow> bool) \<Rightarrow> jsstring \<Rightarrow> jsstring \<Rightarrow> jsstring list" where
  "split_acc sep cur [] = [rev cur]"
| "split_acc sep cur (c # cs) =
     (if sep c then rev cur # split_acc sep [] cs else split_acc sep (c # cur) cs)"

definition split :: "(code_unit \<Rightarrow> bool) \<Rightarrow> jsstring \<Rightarrow> jsstring list" where
  "split sep s = split_acc sep [] s"

text \<open>The decimal digits of a natural number, as \<open>String(n)\<close> gives them for an integer.\<close>

fun decimal :: "nat \<Rightarrow> jsstring" where
  "decimal n = (if n < 10 then [0x30 + of_nat n] else decimal (n div 10) @ [0x30 + of_nat (n mod 10)])"

declare decimal.simps [simp del]

section \<open>Plain objects used as dictionaries\<close>

text \<open>
  \<open>endingPatterns = {}\<close> is an ordinary object. Its own properties are kept here in creation
  order. A read of a missing key finds \<open>undefined\<close>. (The keys written by the analysis are
  at most five code units long, and no property of \<open>Object.prototype\<close> has so short a name,
  so a read never finds an inherited property.)
\<close>

type_synonym js_object = "(jsstring \<times> nat) list"

fun obj_get :: "js_object \<Rightarrow> jsstring \<Rightarrow> nat option" where
  "obj_get [] k = None"
| "obj_get ((k', v) # ps) k = (if k' = k then Some v else obj_get ps k)"

fun obj_set :: "js_object \<Rightarrow> jsstring \<Rightarrow> nat \<Rightarrow> js_object" where
  "obj_set [] k v = [(k, v)]"
| "obj_set ((k', v') # ps) k v = (if k' = k then (k', v) # ps else (k', v') # obj_set ps k v)"

text \<open>
  A property key is an array index when it is the canonical decimal form of an integer
  from 0 to \<open>2^32 - 2\<close>: only digits, no leading zero unless it is \<open>0\<close> itself.
\<close>

definition isDigit :: "code_unit \<Rightarrow> bool" where
  "isDigit c \<longleftrightarrow> 0x30 \<le> c \<and> c \<le> 0x39"

definition indexValue :: "jsstring \<Rightarrow> nat" where
  "indexValue k = foldl (\<lambda>n c. 10 * n + unat (c - 0x30)) 0 k"

definition isArrayIndex :: "jsstring \<Rightarrow> bool" where
  "isArrayIndex k \<longleftrightarrow>
     k \<noteq> [] \<and> list_all isDigit k \<and> (hd k \<noteq> 0x30 \<or> length k = 1) \<and> indexValue k \<le> 4294967294"

text \<open>
  \<open>Object.entries(o)\<close> lists the own properties in the order of OrdinaryOwnPropertyKeys:
  the array-index keys in ascending numeric order, then the other string keys in the
  order in which they were created.
\<close>

definition Object_entries :: "js_object \<Rightarrow> (jsstring \<times> nat) list" where
  "Object_entries obj =
     sort_key (\<lambda>p. indexValue (fst p)) (filter (\<lambda>p. isArrayIndex (fst p)) obj) @
     filter (\<lambda>p. \<not> isArrayIndex (fst p)) obj"

section \<open>The regular-expression engine\<close>

text \<open>
  \<open>new RegExp(pattern, flags)\<close> and \<open>text.match(regex)\<close> belong to the language, not to
  the program, and are taken as a parameter. The constructor either throws (\<open>Inl\<close> carries
  the \<open>message\<close> of the error) or gives a regular expression; \<open>match\<close> with a global
  expression gives \<open>null\<close> (\<open>None\<close>) or the array of the matched substrings.
\<close>

record 'rx regexp_engine =
  RegExp :: "jsstring \<Rightarrow> jsstring \<Rightarrow> jsstring + 'rx"
  String_match :: "jsstring \<Rightarrow> 'rx \<Rightarrow> jsstring list option"

text \<open>The flags \<open>'g'\<close> of both constructor calls: global, and no \<open>i\<close>.\<close>

definition flags_g :: jsstring where
  "flags_g = [0x67]"

section \<open>Rule sets and results\<close>

record AmbiguousPhraseRule =
  phrase_text :: jsstring
  phrase_suggestion :: jsstring

record RepetitivePatternRule =
  rp_pattern :: jsstring
  rp_suggestion :: jsstring

record MediaSpecificRule =
  rule_pattern :: jsstring
  rule_description :: jsstring
  rule_mediaType :: jsstring

record StyleRuleSet =
  ambiguousPhrases :: "AmbiguousPhraseRule list"
  repetitivePatterns :: "RepetitivePatternRule list"
  mediaSpecificRules :: "MediaSpecificRule list"

record AmbiguousPhraseIssue =
  amb_text :: jsstring
  amb_count :: nat
  amb_suggestion :: jsstring

record RepetitiveEnding =
  end_pattern :: jsstring
  end_count :: nat
  end_suggestion :: jsstring

record MediaSpecificIssue =
  med_pattern :: jsstring
  med_count :: nat
  med_description :: jsstring

record AnalysisResult =
  mediaScore :: int
  ambiguousPhrases_res :: "AmbiguousPhraseIssue list"
  repetitiveEndings :: "RepetitiveEnding list"
  mediaSpecificIssues :: "MediaSpecificIssue list"
  improvements :: "jsstring list"

section \<open>analyzeText\<close>

text \<open>The object \<open>result\<close> as it is created at the start of \<open>analyzeText\<close>.\<close>

definition emptyResult :: AnalysisResult where
  "emptyResult = \<lparr>mediaScore = 0, ambiguousPhrases_res = [], repetitiveEndings = [],
     mediaSpecificIssues = [], improvements = []\<rparr>"

text \<open>
  \<open>mediaRules.ambiguousPhrases.forEach(phrase => \<dots>)\<close>: \<open>found\<close> is
  \<open>result.ambiguousPhrases\<close>; an exception of the constructor ends the loop.
\<close>

fun ambiguousPhrases_forEach ::
  "'rx regexp_engine \<Rightarrow> jsstring \<Rightarrow> AmbiguousPhraseRule list \<Rightarrow> AmbiguousPhraseIssue list
     \<Rightarrow> jsstring + AmbiguousPhraseIssue list" where
  "ambiguousPhrases_forEach E text [] found = Inr found"
| "ambiguousPhrases_forEach E text (phrase # rest) found =
     (case RegExp E (phrase_text phrase) flags_g of
        Inl err \<Rightarrow> Inl err
      | Inr regex \<Rightarrow>
          (case String_match E text regex of
             None \<Rightarrow> ambiguousPhrases_forEach E text rest found
           | Some matches \<Rightarrow>
               if length matches > 0
               then ambiguousPhrases_forEach E text rest
                      (found @ [\<lparr>amb_text = phrase_text phrase, amb_count = length matches,
                                 amb_suggestion = phrase_suggestion phrase\<rparr>])
               else ambiguousPhrases_forEach E text rest found))"

text \<open>\<open>(endingPatterns[ending] || 0)\<close>: \<open>undefined\<close> and 0 both give 0.\<close>

definition or_zero :: "nat option \<Rightarrow> nat" where
  "or_zero v = (case v of None \<Rightarrow> 0 | Some n \<Rightarrow> if n = 0 then 0 else n)"

text \<open>\<open>sentences.forEach(sentence => \<dots>)\<close>, the tally of the endings.\<close>

fun sentences_forEach :: "jsstring list \<Rightarrow> js_object \<Rightarrow> js_object" where
  "sentences_forEach [] endingPatterns = endingPatterns"
| "sentences_forEach (sentence # rest) endingPatterns =
     (let trimmed = trim sentence in
      if length trimmed = 0 then sentences_forEach rest endingPatterns
      else
        let ending = slice trimmed (- 5) in
        sentences_forEach rest
          (obj_set endingPatterns ending (or_zero (obj_get endingPatterns ending) + 1)))"

text \<open>The suggestion of a repeated ending: the template literal with \<open>${count}\<close>.\<close>

definition endingSuggestion :: "nat \<Rightarrow> jsstring" where
  "endingSuggestion count =
     [0x8A9E, 0x5C3E, 0x306E, 0x8868, 0x73FE, 0x3092, 0x5909, 0x3048, 0x3066, 0x307F, 0x3066,
      0x304F, 0x3060, 0x3055, 0x3044, 0x3002, 0x73FE, 0x5728, 0x20]
     @ decimal count @
     [0x20, 0x56DE, 0x4F7F, 0x7528, 0x3055, 0x308C, 0x3066, 0x3044, 0x307E, 0x3059, 0x3002]"

text \<open>\<open>for (const [pattern, count] of Object.entries(endingPatterns))\<close>\<close>

fun endingPatterns_loop :: "(jsstring \<times> nat) list \<Rightarrow> RepetitiveEnding list \<Rightarrow> RepetitiveEnding list" where
  "endingPatterns_loop [] found = found"
| "endingPatterns_loop ((pattern, count) # rest) found =
     (if count \<ge> 3
      then endingPatterns_loop rest
             (found @ [\<lparr>end_pattern = pattern, end_count = count,
                        end_suggestion = endingSuggestion count\<rparr>])
      else endingPatterns_loop rest found)"

text \<open>\<open>mediaRules.mediaSpecificRules.forEach(rule => \<dots>)\<close>\<close>

fun mediaSpecificRules_forEach ::
  "'rx regexp_engine \<Rightarrow> jsstring \<Rightarrow> MediaSpecificRule list \<Rightarrow> MediaSpecificIssue list
     \<Rightarrow> jsstring + MediaSpecificIssue list" where
  "mediaSpecificRules_forEach E text [] found = Inr found"
| "mediaSpecificRules_forEach E text (rule # rest) found =
     (case RegExp E (rule_pattern rule) flags_g of
        Inl err \<Rightarrow> Inl err
      | Inr regex \<Rightarrow>
          (case String_match E text regex of
             None \<Rightarrow> mediaSpecificRules_forEach E text rest found
           | Some matches \<Rightarrow>
               if length matches > 0
               then mediaSpecificRules_forEach E text rest
                      (found @ [\<lparr>med_pattern = rule_pattern rule, med_count = length matches,
                                 med_description = rule_description rule\<rparr>])
               else mediaSpecificRules_forEach E text rest found))"

text \<open>The three fixed advisory texts and the one that names the average.\<close>

definition baselineAdvisory :: jsstring where
  "baselineAdvisory =
     [0x66D6, 0x6627, 0x306A, 0x8868, 0x73FE, 0x3084, 0x91CD, 0x8907, 0x3092, 0x907F, 0x3051,
      0x3001, 0x3088, 0x308A, 0x5177, 0x4F53, 0x7684, 0x3067, 0x591A, 0x69D8, 0x306A, 0x8868,
      0x73FE, 0x3092, 0x5FC3, 0x304C, 0x3051, 0x307E, 0x3057, 0x3087, 0x3046, 0x3002]"

definition lengthAdvisory :: "nat \<Rightarrow> jsstring" where
  "lengthAdvisory rounded =
     [0x6587, 0x304C, 0x5E73, 0x5747] @ decimal rounded @
     [0x6587, 0x5B57, 0x3068, 0x9577, 0x3081, 0x3067, 0x3059, 0x3002, 0x77ED, 0x304F, 0x533A,
      0x5207, 0x308B, 0x3053, 0x3068, 0x3092, 0x691C, 0x8A0E, 0x3057, 0x3066, 0x304F, 0x3060,
      0x3055, 0x3044, 0x3002]"

definition complexityAdvisory :: jsstring where
  "complexityAdvisory =
     [0x6587, 0x7AE0, 0x304C, 0x8907, 0x96D1, 0x3059, 0x304E, 0x308B, 0x53EF, 0x80FD, 0x6027,
      0x304C, 0x3042, 0x308A, 0x307E, 0x3059, 0x3002, 0x77ED, 0x3044, 0x6587, 0x306B, 0x5206,
      0x3051, 0x308B, 0x3053, 0x3068, 0x3092, 0x691C, 0x8A0E, 0x3057, 0x3066, 0x304F, 0x3060,
      0x3055, 0x3044, 0x3002]"

text \<open>
  Numbers. \<open>text.length / sentences.length\<close> and the readability score are computed by the
  source in double precision. The operands are lengths of a string and of an array: they
  are exact as doubles and far below \<open>2^52\<close>. Division is rounded correctly and
  monotonically, the thresholds 50 and 60 and every \<open>k + 1/2\<close> are doubles, and an exact
  quotient that differs from one of them differs by at least \<open>1 / (2 * sentences.length)\<close>,
  which is more than the rounding error at these sizes. So every comparison and the
  rounding of the source give what they give on the exact quotients, and the model
  computes with rationals. The divisor \<open>sentences.length\<close> is never 0, since a split has
  at least one segment. \<open>Math.round\<close> rounds a half upwards. The word count that the
  source also computes is never used.
\<close>

definition Math_round :: "rat \<Rightarrow> int" where
  "Math_round x = \<lfloor>x + 1 / 2\<rfloor>"

definition averageSentenceLength :: "jsstring \<Rightarrow> jsstring list \<Rightarrow> rat" where
  "averageSentenceLength text sentences = of_nat (length text) / of_nat (length sentences)"

definition readabilityScore :: "jsstring \<Rightarrow> jsstring list \<Rightarrow> rat" where
  "readabilityScore text sentences =
     (let characterCount = length (removeWhiteSpace text);
          sentenceCount = length sentences
      in 100 - (of_nat characterCount / of_nat sentenceCount / 10))"

text \<open>The block \<open>if (detailedAnalysis) { \<dots> }\<close>, on the list \<open>result.improvements\<close>.\<close>

definition detailedAnalysis_block :: "jsstring \<Rightarrow> jsstring list \<Rightarrow> jsstring list \<Rightarrow> jsstring list" where
  "detailedAnalysis_block text sentences imps =
     (let imps1 =
            (if averageSentenceLength text sentences > 50
             then imps @ [lengthAdvisory (nat (Math_round (averageSentenceLength text sentences)))]
             else imps)
      in if readabilityScore text sentences < 60 then imps1 @ [complexityAdvisory] else imps1)"

text \<open>The body of the \<open>try\<close> block: \<open>Inl\<close> is the message of an exception thrown in it.\<close>

definition analyzeText_try ::
  "'rx regexp_engine \<Rightarrow> jsstring \<Rightarrow> StyleRuleSet \<Rightarrow> bool \<Rightarrow> jsstring + AnalysisResult" where
  "analyzeText_try E text mediaRules detailedAnalysis =
     (let result = emptyResult in
      if text = [] \<or> trim text = [] then Inr result
      else
        case ambiguousPhrases_forEach E text (ambiguousPhrases mediaRules)
               (ambiguousPhrases_res result) of
          Inl err \<Rightarrow> Inl err
        | Inr amb \<Rightarrow>
            let sentences = split isTerminator text;
                endingPatterns = sentences_forEach sentences [];
                ends = endingPatterns_loop (Object_entries endingPatterns) (repetitiveEndings result)
            in
            (case mediaSpecificRules_forEach E text (mediaSpecificRules mediaRules)
                    (mediaSpecificIssues result) of
               Inl err \<Rightarrow> Inl err
             | Inr med \<Rightarrow>
                 let totalIssues = length amb + length ends + length med;
                     maxScore = 100;
                     issueWeight = 5;
                     score = max 0 (maxScore - (int totalIssues * issueWeight));
                     imps = (if score < 70 then improvements result @ [baselineAdvisory]
                             else improvements result);
                     imps' = (if detailedAnalysis then detailedAnalysis_block text sentences imps
                              else imps)
                 in Inr (result\<lparr>mediaScore := score, ambiguousPhrases_res := amb,
                                  repetitiveEndings := ends, mediaSpecificIssues := med,
                                  improvements := imps'\<rparr>)))"

text \<open>
  \<open>catch (error) { \<dots> throw new Error('\<dots>: ' + error.message) }\<close>: the message of the
  error that reaches the caller.
\<close>

definition analysisErrorMessage :: "jsstring \<Rightarrow> jsstring" where
  "analysisErrorMessage msg =
     [0x30C6, 0x30AD, 0x30B9, 0x30C8, 0x5206, 0x6790, 0x4E2D, 0x306B, 0x30A8, 0x30E9, 0x30FC,
      0x304C, 0x767A, 0x751F, 0x3057, 0x307E, 0x3057, 0x305F, 0x3A, 0x20] @ msg"

definition analyzeText ::
  "'rx regexp_engine \<Rightarrow> jsstring \<Rightarrow> StyleRuleSet \<Rightarrow> bool \<Rightarrow> jsstring + AnalysisResult" where
  "analyzeText E text mediaRules detailedAnalysis =
     (case analyzeText_try E text mediaRules detailedAnalysis of
        Inl msg \<Rightarrow> Inl (analysisErrorMessage msg)
      | Inr result \<Rightarrow> Inr result)"

section \<open>getMediaRules\<close>

text \<open>
  The rule store is external. A query is the collection with the \<open>where\<close> conditions put
  on it; \<open>query.get()\<close> either rejects (\<open>Inl\<close> carries the error) or resolves to the data
  of the documents of the snapshot, in the order in which \<open>snapshot.forEach\<close> visits them.
\<close>

datatype js_value = Boolean bool | String jsstring

record where_clause =
  w_field :: jsstring
  w_op :: jsstring
  w_value :: js_value

record query =
  q_collection :: jsstring
  q_where :: "where_clause list"

record rule_data =
  data_type :: jsstring
  data_text :: jsstring
  data_pattern :: jsstring
  data_suggestion :: jsstring
  data_description :: jsstring
  data_mediaType :: jsstring

type_synonym firestore = "query \<Rightarrow> jsstring + rule_data list"

definition collection :: "jsstring \<Rightarrow> query" where
  "collection name = \<lparr>q_collection = name, q_where = []\<rparr>"

definition query_where :: "query \<Rightarrow> jsstring \<Rightarrow> jsstring \<Rightarrow> js_value \<Rightarrow> query" where
  "query_where q f opr v = q\<lparr>q_where := q_where q @ [\<lparr>w_field = f, w_op = opr, w_value = v\<rparr>]\<rparr>"

text \<open>The literal U+4E00 U+822C (\<open>general\<close>), for which no media-type condition is added.\<close>

definition generalMediaType :: jsstring where
  "generalMediaType = [0x4E00, 0x822C]"

text \<open>
  The query built by \<open>getMediaRules\<close>. The argument \<open>mediaType\<close> is \<open>None\<close> when it is
  \<open>undefined\<close>; the empty string is falsy as well.
\<close>

definition styleRulesQuery :: "jsstring option \<Rightarrow> query" where
  "styleRulesQuery mediaType =
     (let rulesRef = collection (ascii ''styleRules'');
          q = query_where rulesRef (ascii ''isActive'') (ascii ''=='') (Boolean True)
      in case mediaType of
           None \<Rightarrow> q
         | Some m \<Rightarrow>
             if m \<noteq> [] \<and> m \<noteq> generalMediaType
             then query_where q (ascii ''mediaTypes'') (ascii ''array-contains'') (String m)
             else q)"

definition emptyRules :: StyleRuleSet where
  "emptyRules = \<lparr>ambiguousPhrases = [], repetitivePatterns = [], mediaSpecificRules = []\<rparr>"

text \<open>\<open>snapshot.forEach(doc => \<dots>)\<close>: a document of another type changes nothing.\<close>

fun snapshot_forEach :: "rule_data list \<Rightarrow> StyleRuleSet \<Rightarrow> StyleRuleSet" where
  "snapshot_forEach [] rules = rules"
| "snapshot_forEach (data # rest) rules =
     (if data_type data = ascii ''ambiguousPhrase'' then
        snapshot_forEach rest
          (rules\<lparr>ambiguousPhrases := ambiguousPhrases rules @
             [\<lparr>phrase_text = data_text data, phrase_suggestion = data_suggestion data\<rparr>]\<rparr>)
      else if data_type data = ascii ''repetitivePattern'' then
        snapshot_forEach rest
          (rules\<lparr>repetitivePatterns := repetitivePatterns rules @
             [\<lparr>rp_pattern = data_pattern data, rp_suggestion = data_suggestion data\<rparr>]\<rparr>)
      else if data_type data = ascii ''mediaSpecific'' then
        snapshot_forEach rest
          (rules\<lparr>mediaSpecificRules := mediaSpecificRules rules @
             [\<lparr>rule_pattern = data_pattern data, rule_description = data_description data,
               rule_mediaType = data_mediaType data\<rparr>]\<rparr>)
      else snapshot_forEach rest rules)"

text \<open>The body of the \<open>try\<close> block of \<open>getMediaRules\<close>.\<close>

definition getMediaRules_try :: "firestore \<Rightarrow> jsstring option \<Rightarrow> jsstring + StyleRuleSet" where
  "getMediaRules_try db mediaType =
     (case db (styleRulesQuery mediaType) of
        Inl err \<Rightarrow> Inl err
      | Inr snapshot \<Rightarrow> Inr (snapshot_forEach snapshot emptyRules))"

text \<open>
  \<open>catch (error) { console.error(\<dots>); return {\<dots>} }\<close>: the error is logged and the
  three empty lists are returned. \<open>Inl\<close> would be an error that reaches the caller.
\<close>

definition getMediaRules :: "firestore \<Rightarrow> jsstring option \<Rightarrow> jsstring + StyleRuleSet" where
  "getMediaRules db mediaType =
     (case getMediaRules_try db mediaType of
        Inl error \<Rightarrow> Inr emptyRules
      | Inr rules \<Rightarrow> Inr rules)"

section \<open>Notions used to state the properties\<close>

text \<open>Whether the constructor accepts a pattern, and how many matches a pattern has.\<close>

definition compiles :: "'rx regexp_engine \<Rightarrow> jsstring \<Rightarrow> bool" where
  "compiles E p = (case RegExp E p flags_g of Inl _ \<Rightarrow> False | Inr _ \<Rightarrow> True)"

definition matchCount :: "'rx regexp_engine \<Rightarrow> jsstring \<Rightarrow> jsstring \<Rightarrow> nat" where
  "matchCount E text p =
     (case RegExp E p flags_g of
        Inl _ \<Rightarrow> 0
      | Inr regex \<Rightarrow>
          (case String_match E text regex of None \<Rightarrow> 0 | Some matches \<Rightarrow> length matches))"

text \<open>No pattern of the two rule lists that the analysis compiles makes the constructor throw.\<close>

definition patternsCompile :: "'rx regexp_engine \<Rightarrow> StyleRuleSet \<Rightarrow> bool" where
  "patternsCompile E mediaRules \<longleftrightarrow>
     list_all (\<lambda>p. compiles E (phrase_text p)) (ambiguousPhrases mediaRules) \<and>
     list_all (\<lambda>r. compiles E (rule_pattern r)) (mediaSpecificRules mediaRules)"

definition ambiguousIssue :: "'rx regexp_engine \<Rightarrow> jsstring \<Rightarrow> AmbiguousPhraseRule \<Rightarrow> AmbiguousPhraseIssue" where
  "ambiguousIssue E text phrase =
     \<lparr>amb_text = phrase_text phrase, amb_count = matchCount E text (phrase_text phrase),
      amb_suggestion = phrase_suggestion phrase\<rparr>"

definition mediaIssue :: "'rx regexp_engine \<Rightarrow> jsstring \<Rightarrow> MediaSpecificRule \<Rightarrow> MediaSpecificIssue" where
  "mediaIssue E text rule =
     \<lparr>med_pattern = rule_pattern rule, med_count = matchCount E text (rule_pattern rule),
      med_description = rule_description rule\<rparr>"

text \<open>The number of issues of a result, and the score that number of issues gives.\<close>

definition totalIssues :: "AnalysisResult \<Rightarrow> nat" where
  "totalIssues r =
     length (ambiguousPhrases_res r) + length (repetitiveEndings r) + length (mediaSpecificIssues r)"

definition scoreOf :: "nat \<Rightarrow> int" where
  "scoreOf n = max 0 (100 - 5 * int n)"

text \<open>
  The ending keys of a text as the specification describes them: the trailing five code
  units (the whole sentence if it is shorter) of every non-empty trimmed sentence.
\<close>

definition trailing5 :: "jsstring \<Rightarrow> jsstring" where
  "trailing5 s = (if length s \<le> 5 then s else drop (length s - 5) s)"

definition endingKeys :: "jsstring \<Rightarrow> jsstring list" where
  "endingKeys text =
     map trailing5 (filter (\<lambda>s. s \<noteq> []) (map trim (split isTerminator text)))"

text \<open>The distinct elements of a list in the order of their first occurrence.\<close>

fun firstOccurrences :: "'a list \<Rightarrow> 'a list" where
  "firstOccurrences [] = []"
| "firstOccurrences (x # xs) = x # filter (\<lambda>y. y \<noteq> x) (firstOccurrences xs)"

text \<open>
  The order in which \<open>Object.entries\<close> lists keys that were created in the order \<open>ks\<close>.
\<close>

definition entriesOrder :: "jsstring list \<Rightarrow> jsstring list" where
  "entriesOrder ks =
     sort_key indexValue (filter isArrayIndex ks) @ filter (\<lambda>k. \<not> isArrayIndex k) ks"

definition endingIssue :: "jsstring list \<Rightarrow> jsstring \<Rightarrow> RepetitiveEnding" where
  "endingIssue keys k =
     \<lparr>end_pattern = k, end_count = count_list keys k,
      end_suggestion = endingSuggestion (count_list keys k)\<rparr>"

text \<open>One step of the tally, and the tally of a list of keys as an object.\<close>

definition bump :: "js_object \<Rightarrow> jsstring \<Rightarrow> js_object" where
  "bump obj k = obj_set obj k (or_zero (obj_get obj k) + 1)"

definition tally :: "jsstring list \<Rightarrow> js_object" where
  "tally keys = map (\<lambda>k. (k, count_list keys k)) (firstOccurrences keys)"

text \<open>The number of issues that an analysis which does not throw finds.\<close>

definition issuesFound :: "'rx regexp_engine \<Rightarrow> jsstring \<Rightarrow> StyleRuleSet \<Rightarrow> nat" where
  "issuesFound E text mediaRules =
     length (filter (\<lambda>p. matchCount E text (phrase_text p) > 0) (ambiguousPhrases mediaRules)) +
     length (filter (\<lambda>k. count_list (endingKeys text) k \<ge> 3)
               (entriesOrder (firstOccurrences (endingKeys text)))) +
     length (filter (\<lambda>r. matchCount E text (rule_pattern r) > 0) (mediaSpecificRules mediaRules))"

text \<open>
  The text as the specification describes its sentences, written without the functions
  of the model above. The terminators are the seven code units of the class. The
  segments of a text are the part before its first terminator, followed by the segments
  of what comes after that terminator; a text without terminator is its only segment.
\<close>

definition terminators :: jsstring where
  "terminators = [0x3002, 0xFF0E, 0x2E, 0x21, 0x3F, 0xFF01, 0xFF1F]"

function segments :: "(code_unit \<Rightarrow> bool) \<Rightarrow> jsstring \<Rightarrow> jsstring list" where
  "segments sep s =
     (case dropWhile (\<lambda>c. \<not> sep c) s of
        [] \<Rightarrow> [s]
      | c # rest \<Rightarrow> takeWhile (\<lambda>c. \<not> sep c) s # segments sep rest)"
  by pat_completeness auto
termination
proof (relation "measure (\<lambda>(sep, s). length s)")
  show "wf (measure (\<lambda>(sep, s). length s))" by simp
next
  fix sep :: "code_unit \<Rightarrow> bool" and s c rest
  assume "dropWhile (\<lambda>c. \<not> sep c) s = c # rest"
  then have "Suc (length rest) = length (dropWhile (\<lambda>c. \<not> sep c) s)" by simp
  also have "\<dots> \<le> length s" by (rule length_dropWhile_le)
  finally show "((sep, rest), (sep, s)) \<in> measure (\<lambda>(sep, s). length s)" by simp
qed

declare segments.simps [simp del]

text \<open>A sentence without the white space after it and before it.\<close>

definition stripWhiteSpace :: "jsstring \<Rightarrow> jsstring" where
  "stripWhiteSpace s = dropWhile isWhiteSpace (rev (dropWhile isWhiteSpace (rev s)))"

text \<open>
  The ending of every sentence that is not empty once stripped: its last five code
  units, or all of it if it has fewer.
\<close>

definition sentenceEndings :: "jsstring \<Rightarrow> jsstring list" where
  "sentenceEndings text =
     map trailing5
       (filter (\<lambda>s. s \<noteq> [])
          (map stripWhiteSpace (segments (\<lambda>c. c \<in> set terminators) text)))"

text \<open>
  The number of matches of a pattern in a text when the expression is made with the
  given flags; 0 when the constructor throws.
\<close>

definition countMatches :: "'rx regexp_engine \<Rightarrow> jsstring \<Rightarrow> jsstring \<Rightarrow> jsstring \<Rightarrow> nat" where
  "countMatches E flags text p =
     (case RegExp E p flags of
        Inl _ \<Rightarrow> 0
      | Inr regex \<Rightarrow>
          (case String_match E text regex of None \<Rightarrow> 0 | Some matches \<Rightarrow> length matches))"

section \<open>An engine for the examples\<close>

text \<open>
  A pattern without syntax characters matches itself and nothing else: the global scan
  finds its occurrences from left to right, each starting after the end of the one
  before (the empty pattern matches once at every position). For a pattern whose only
  syntax characters are opening parentheses the constructor throws a \<open>SyntaxError\<close>,
  the group being unterminated; its message names the pattern and the flags.
  \<open>literalEngine\<close> is the language's engine on these two kinds of pattern, the only
  ones in the examples. It does not interpret the other patterns: what it answers for
  them is not what the language does.
\<close>

definition isSyntaxCharacter :: "code_unit \<Rightarrow> bool" where
  "isSyntaxCharacter c \<longleftrightarrow>
     c = 0x5E \<or> c = 0x24 \<or> c = 0x5C \<or> c = 0x2E \<or> c = 0x2A \<or> c = 0x2B \<or> c = 0x3F \<or>
     c = 0x28 \<or> c = 0x29 \<or> c = 0x5B \<or> c = 0x5D \<or> c = 0x7B \<or> c = 0x7D \<or> c = 0x7C"

fun literalMatches :: "jsstring \<Rightarrow> nat \<Rightarrow> jsstring \<Rightarrow> jsstring list" where
  "literalMatches p skip [] = (if p = [] then [[]] else [])"
| "literalMatches p skip (c # cs) =
     (if skip > 0 then literalMatches p (skip - 1) cs
      else if take (length p) (c # cs) = p then p # literalMatches p (length p - 1) cs
      else literalMatches p 0 cs)"

definition literalEngine :: "jsstring regexp_engine" where
  "literalEngine =
     \<lparr>RegExp = (\<lambda>pattern flags.
        if \<not> list_ex isSyntaxCharacter pattern then Inr pattern
        else if \<not> list_ex (\<lambda>c. isSyntaxCharacter c \<and> c \<noteq> 0x28) pattern
        then Inl (ascii ''Invalid regular expression: /'' @ pattern @ ascii ''/'' @ flags @
                  ascii '': Unterminated group'')
        else Inl (ascii ''pattern not interpreted'')),
      String_match = (\<lambda>text regex.
        case literalMatches regex 0 text of [] \<Rightarrow> None | m # ms \<Rightarrow> Some (m # ms))\<rparr>"

section \<open>Lemmas\<close>

subsection \<open>The two rule loops\<close>

lemma ambiguousPhrases_forEach_ok:
  "list_all (\<lambda>p. compiles E (phrase_text p)) rules \<Longrightarrow>
   ambiguousPhrases_forEach E text rules found =
     Inr (found @ map (ambiguousIssue E text)
                    (filter (\<lambda>p. matchCount E text (phrase_text p) > 0) rules))"
proof (induction rules arbitrary: found)
  case Nil
  then show ?case by simp
next
  case (Cons phrase rest)
  then show ?case
    by (auto simp: compiles_def matchCount_def ambiguousIssue_def split: sum.splits option.splits)
qed

lemma mediaSpecificRules_forEach_ok:
  "list_all (\<lambda>r. compiles E (rule_pattern r)) rules \<Longrightarrow>
   mediaSpecificRules_forEach E text rules found =
     Inr (found @ map (mediaIssue E text)
                    (filter (\<lambda>r. matchCount E text (rule_pattern r) > 0) rules))"
proof (induction rules arbitrary: found)
  case Nil
  then show ?case by simp
next
  case (Cons rule rest)
  then show ?case
    by (auto simp: compiles_def matchCount_def mediaIssue_def split: sum.splits option.splits)
qed

lemma ambiguousPhrases_forEach_fail:
  "\<not> list_all (\<lambda>p. compiles E (phrase_text p)) rules \<Longrightarrow>
   \<exists>p \<in> set rules. \<exists>msg. RegExp E (phrase_text p) flags_g = Inl msg \<and>
      ambiguousPhrases_forEach E text rules found = Inl msg"
proof (induction rules arbitrary: found)
  case Nil
  then show ?case by simp
next
  case (Cons phrase rest)
  show ?case
  proof (cases "RegExp E (phrase_text phrase) flags_g")
    case (Inl msg)
    then show ?thesis by auto
  next
    case (Inr regex)
    with Cons.prems have "\<not> list_all (\<lambda>p. compiles E (phrase_text p)) rest"
      by (simp add: compiles_def)
    from Cons.IH [OF this] Inr show ?thesis
      by (auto split: option.splits)
  qed
qed

lemma mediaSpecificRules_forEach_fail:
  "\<not> list_all (\<lambda>r. compiles E (rule_pattern r)) rules \<Longrightarrow>
   \<exists>r \<in> set rules. \<exists>msg. RegExp E (rule_pattern r) flags_g = Inl msg \<and>
      mediaSpecificRules_forEach E text rules found = Inl msg"
proof (induction rules arbitrary: found)
  case Nil
  then show ?case by simp
next
  case (Cons rule rest)
  show ?case
  proof (cases "RegExp E (rule_pattern rule) flags_g")
    case (Inl msg)
    then show ?thesis by auto
  next
    case (Inr regex)
    with Cons.prems have "\<not> list_all (\<lambda>r. compiles E (rule_pattern r)) rest"
      by (simp add: compiles_def)
    from Cons.IH [OF this] Inr show ?thesis
      by (auto split: option.splits)
  qed
qed

subsection \<open>The tally of the endings\<close>

lemma slice_trailing5: "slice s (- 5) = trailing5 s"
  by (auto simp: slice_def trailing5_def Let_def max_def nat_diff_distrib')

lemma set_firstOccurrences [simp]: "set (firstOccurrences xs) = set xs"
  by (induction xs) auto

lemma distinct_firstOccurrences [simp]: "distinct (firstOccurrences xs)"
  by (induction xs) auto

lemma firstOccurrences_snoc:
  "firstOccurrences (xs @ [k]) =
     (if k \<in> set xs then firstOccurrences xs else firstOccurrences xs @ [k])"
  by (induction xs) auto

lemma sentences_forEach_foldl:
  "sentences_forEach sentences obj =
     foldl bump obj (map trailing5 (filter (\<lambda>s. s \<noteq> []) (map trim sentences)))"
  by (induction sentences arbitrary: obj) (simp_all add: Let_def bump_def slice_trailing5)

lemma obj_get_map:
  "obj_get (map (\<lambda>k. (k, f k)) xs) k = (if k \<in> set xs then Some (f k) else None)"
  by (induction xs) auto

lemma obj_set_map:
  "distinct xs \<Longrightarrow>
   obj_set (map (\<lambda>k. (k, f k)) xs) k v =
     (if k \<in> set xs then map (\<lambda>k'. (k', if k' = k then v else f k')) xs
      else map (\<lambda>k. (k, f k)) xs @ [(k, v)])"
  by (induction xs) auto

lemma bump_tally: "bump (tally ks) k = tally (ks @ [k])"
  by (cases "k \<in> set ks")
    (auto simp: bump_def tally_def obj_get_map obj_set_map firstOccurrences_snoc or_zero_def)

lemma foldl_bump_tally: "foldl bump [] ks = tally ks"
proof (induction ks rule: rev_induct)
  case Nil
  then show ?case by (simp add: tally_def)
next
  case (snoc k ks)
  then show ?case by (simp add: bump_tally)
qed

lemma endingPatterns_loop_filter:
  "endingPatterns_loop entries found =
     found @ map (\<lambda>(k, c). \<lparr>end_pattern = k, end_count = c, end_suggestion = endingSuggestion c\<rparr>)
               (filter (\<lambda>(k, c). c \<ge> 3) entries)"
  by (induction entries found rule: endingPatterns_loop.induct) auto

lemma insort_key_map:
  "insort_key h (g x) (map g xs) = map g (insort_key (\<lambda>a. h (g a)) x xs)"
  by (induction xs) auto

lemma sort_key_map: "sort_key h (map g xs) = map g (sort_key (\<lambda>a. h (g a)) xs)"
  by (induction xs) (simp_all add: insort_key_map)

lemma Object_entries_tally:
  "Object_entries (tally keys) =
     map (\<lambda>k. (k, count_list keys k)) (entriesOrder (firstOccurrences keys))"
  by (simp add: Object_entries_def tally_def entriesOrder_def filter_map o_def sort_key_map)

lemma repetitiveEndings_eq:
  "endingPatterns_loop (Object_entries (sentences_forEach (split isTerminator text) [])) [] =
     map (endingIssue (endingKeys text))
       (filter (\<lambda>k. count_list (endingKeys text) k \<ge> 3)
          (entriesOrder (firstOccurrences (endingKeys text))))"
  by (simp add: sentences_forEach_foldl foldl_bump_tally Object_entries_tally
      endingPatterns_loop_filter endingKeys_def filter_map o_def endingIssue_def)

lemma set_entriesOrder [simp]: "set (entriesOrder ks) = set ks"
  by (auto simp: entriesOrder_def)

lemma distinct_entriesOrder [simp]: "distinct ks \<Longrightarrow> distinct (entriesOrder ks)"
  by (auto simp: entriesOrder_def)

subsection \<open>The guard\<close>

lemma trim_Nil_iff: "trim s = [] \<longleftrightarrow> list_all isWhiteSpace s"
proof (cases "dropWhile isWhiteSpace s")
  case Nil
  then have "list_all isWhiteSpace s" by (simp add: dropWhile_eq_Nil_conv list_all_iff)
  moreover have "trim s = []" unfolding trim_def Nil by simp
  ultimately show ?thesis by simp
next
  case (Cons y ys)
  then have "\<not> isWhiteSpace y" by (metis hd_dropWhile list.sel(1) list.distinct(1))
  moreover have "y \<in> set s" by (metis Cons list.set_intros(1) set_dropWhileD)
  ultimately show ?thesis using Cons
    by (auto simp: trim_def dropWhile_eq_Nil_conv list_all_iff)
qed

lemma guard_iff: "(text = [] \<or> trim text = []) \<longleftrightarrow> list_all isWhiteSpace text"
  by (auto simp: trim_Nil_iff)

lemma analyzeText_blank:
  "list_all isWhiteSpace text \<Longrightarrow> analyzeText E text mediaRules detailed = Inr emptyResult"
  using guard_iff [of "text"] by (simp add: analyzeText_def analyzeText_try_def)

subsection \<open>The result of an analysis that does not throw\<close>

lemma analyzeText_ok:
  assumes "\<not> list_all isWhiteSpace text" and "patternsCompile E mediaRules"
  shows "analyzeText E text mediaRules detailed =
     Inr \<lparr>mediaScore = scoreOf (issuesFound E text mediaRules),
          ambiguousPhrases_res =
            map (ambiguousIssue E text)
              (filter (\<lambda>p. matchCount E text (phrase_text p) > 0) (ambiguousPhrases mediaRules)),
          repetitiveEndings =
            map (endingIssue (endingKeys text))
              (filter (\<lambda>k. count_list (endingKeys text) k \<ge> 3)
                 (entriesOrder (firstOccurrences (endingKeys text)))),
          mediaSpecificIssues =
            map (mediaIssue E text)
              (filter (\<lambda>r. matchCount E text (rule_pattern r) > 0) (mediaSpecificRules mediaRules)),
          improvements =
            (if scoreOf (issuesFound E text mediaRules) < 70 then [baselineAdvisory] else []) @
            (if detailed then
               (if averageSentenceLength text (split isTerminator text) > 50
                then [lengthAdvisory (nat (Math_round (averageSentenceLength text (split isTerminator text))))]
                else []) @
               (if readabilityScore text (split isTerminator text) < 60 then [complexityAdvisory] else [])
             else [])\<rparr>"
proof -
  from assms(1) have g: "\<not> (text = [] \<or> trim text = [])" by (simp add: guard_iff)
  from assms(2) have a: "list_all (\<lambda>p. compiles E (phrase_text p)) (ambiguousPhrases mediaRules)"
    and m: "list_all (\<lambda>r. compiles E (rule_pattern r)) (mediaSpecificRules mediaRules)"
    by (simp_all add: patternsCompile_def)
  show ?thesis
    using g
    by (simp add: analyzeText_def analyzeText_try_def emptyResult_def Let_def
        ambiguousPhrases_forEach_ok [OF a] mediaSpecificRules_forEach_ok [OF m]
        repetitiveEndings_eq scoreOf_def issuesFound_def detailedAnalysis_block_def mult.commute)
qed

lemma analyzeText_fields:
  assumes "\<not> list_all isWhiteSpace text" and "patternsCompile E mediaRules"
  shows "\<exists>r. analyzeText E text mediaRules detailed = Inr r \<and>
     mediaScore r = scoreOf (totalIssues r) \<and>
     totalIssues r = issuesFound E text mediaRules \<and>
     ambiguousPhrases_res r =
       map (ambiguousIssue E text)
         (filter (\<lambda>p. matchCount E text (phrase_text p) > 0) (ambiguousPhrases mediaRules)) \<and>
     repetitiveEndings r =
       map (endingIssue (endingKeys text))
         (filter (\<lambda>k. count_list (endingKeys text) k \<ge> 3)
            (entriesOrder (firstOccurrences (endingKeys text)))) \<and>
     mediaSpecificIssues r =
       map (mediaIssue E text)
         (filter (\<lambda>r. matchCount E text (rule_pattern r) > 0) (mediaSpecificRules mediaRules)) \<and>
     improvements r =
       (if mediaScore r < 70 then [baselineAdvisory] else []) @
       (if detailed then
          (if averageSentenceLength text (split isTerminator text) > 50
           then [lengthAdvisory (nat (Math_round (averageSentenceLength text (split isTerminator text))))]
           else []) @
          (if readabilityScore text (split isTerminator text) < 60 then [complexityAdvisory] else [])
        else [])"
  unfolding analyzeText_ok [OF assms]
  by (simp add: totalIssues_def issuesFound_def)

lemma analyzeText_fail:
  assumes "\<not> list_all isWhiteSpace text" and "\<not> patternsCompile E mediaRules"
  shows "\<exists>p msg. (p \<in> phrase_text ` set (ambiguousPhrases mediaRules) \<or>
                  p \<in> rule_pattern ` set (mediaSpecificRules mediaRules)) \<and>
            RegExp E p flags_g = Inl msg \<and>
            analyzeText E text mediaRules detailed = Inl (analysisErrorMessage msg)"
proof -
  from assms(1) have g: "\<not> (text = [] \<or> trim text = [])" by (simp add: guard_iff)
  show ?thesis
  proof (cases "list_all (\<lambda>p. compiles E (phrase_text p)) (ambiguousPhrases mediaRules)")
    case False
    from ambiguousPhrases_forEach_fail [OF False, of "text" "[]"]
    obtain p msg where "p \<in> set (ambiguousPhrases mediaRules)"
      and "RegExp E (phrase_text p) flags_g = Inl msg"
      and "ambiguousPhrases_forEach E text (ambiguousPhrases mediaRules) [] = Inl msg"
      by blast
    with g have "analyzeText E text mediaRules detailed = Inl (analysisErrorMessage msg)"
      by (simp add: analyzeText_def analyzeText_try_def emptyResult_def)
    with \<open>p \<in> set (ambiguousPhrases mediaRules)\<close> \<open>RegExp E (phrase_text p) flags_g = Inl msg\<close>
    show ?thesis by blast
  next
    case True
    with assms(2) have m: "\<not> list_all (\<lambda>r. compiles E (rule_pattern r)) (mediaSpecificRules mediaRules)"
      by (simp add: patternsCompile_def)
    from mediaSpecificRules_forEach_fail [OF m, of "text" "[]"]
    obtain r msg where "r \<in> set (mediaSpecificRules mediaRules)"
      and "RegExp E (rule_pattern r) flags_g = Inl msg"
      and "mediaSpecificRules_forEach E text (mediaSpecificRules mediaRules) [] = Inl msg"
      by blast
    with g have "analyzeText E text mediaRules detailed = Inl (analysisErrorMessage msg)"
      by (simp add: analyzeText_def analyzeText_try_def emptyResult_def Let_def
          ambiguousPhrases_forEach_ok [OF True])
    with \<open>r \<in> set (mediaSpecificRules mediaRules)\<close> \<open>RegExp E (rule_pattern r) flags_g = Inl msg\<close>
    show ?thesis by blast
  qed
qed

subsection \<open>The engine of the examples\<close>

lemma literalEngine_compiles:
  "compiles literalEngine p \<longleftrightarrow> \<not> list_ex isSyntaxCharacter p"
  by (simp add: compiles_def literalEngine_def)

lemma literalEngine_matchCount:
  "\<not> list_ex isSyntaxCharacter p \<Longrightarrow> matchCount literalEngine t p = length (literalMatches p 0 t)"
  by (simp add: matchCount_def literalEngine_def split: list.splits)

subsection \<open>Texts without a terminator, blank texts\<close>

lemma split_acc_no_sep:
  "\<forall>c \<in> set s. \<not> sep c \<Longrightarrow> split_acc sep cur s = [rev cur @ s]"
  by (induction s arbitrary: cur) simp_all

lemma split_acc_prefix:
  "\<forall>c \<in> set s. \<not> sep c \<Longrightarrow> sep c \<Longrightarrow>
   split_acc sep cur (s @ c # rest) = (rev cur @ s) # split_acc sep [] rest"
  by (induction s arbitrary: cur) simp_all

lemma length_split_pos: "0 < length (split sep s)"
proof -
  have "0 < length (split_acc sep cur s)" for cur
    by (induction s arbitrary: cur) simp_all
  then show ?thesis by (simp add: split_def)
qed

lemma whiteSpace_not_terminator: "isWhiteSpace c \<Longrightarrow> \<not> isTerminator c"
  by (auto simp: isWhiteSpace_def isTerminator_def)

lemma endingKeys_blank:
  assumes "list_all isWhiteSpace text"
  shows "endingKeys text = []"
proof -
  from assms have "\<forall>c \<in> set text. \<not> isTerminator c"
    by (auto simp: list_all_iff whiteSpace_not_terminator)
  then have "split isTerminator text = [text]"
    by (simp add: split_def split_acc_no_sep)
  moreover from assms have "trim text = []" by (simp add: trim_Nil_iff)
  ultimately show ?thesis by (simp add: endingKeys_def)
qed

lemma filter_eq_distinct:
  "distinct xs \<Longrightarrow> filter (\<lambda>x. x = k) xs = (if k \<in> set xs then [k] else [])"
  by (induction xs) auto

lemma filter_endingIssues:
  assumes "distinct L"
  shows "filter (\<lambda>e. end_pattern e = k) (map (endingIssue keys) (filter P L)) =
           (if k \<in> set L \<and> P k then [endingIssue keys k] else [])"
proof -
  have "filter (\<lambda>e. end_pattern e = k) (map (endingIssue keys) (filter P L)) =
        map (endingIssue keys) (filter (\<lambda>x. x = k) (filter P L))"
    by (simp add: filter_map o_def endingIssue_def)
  also have "filter (\<lambda>x. x = k) (filter P L) = (if k \<in> set L \<and> P k then [k] else [])"
    using assms filter_eq_distinct [of "filter P L" k] by (simp del: filter_filter)
  finally show ?thesis by simp
qed

lemma map_end_pattern_endingIssue:
  "map end_pattern (map (endingIssue keys) ks) = ks"
  by (induction ks) (simp_all add: endingIssue_def)

lemma entriesOrder_no_index:
  "list_all (\<lambda>k. \<not> isArrayIndex k) ks \<Longrightarrow> entriesOrder ks = ks"
proof -
  assume a: "list_all (\<lambda>k. \<not> isArrayIndex k) ks"
  then have "filter isArrayIndex ks = []" by (auto simp: list_all_iff filter_empty_conv)
  moreover from a have "filter (\<lambda>k. \<not> isArrayIndex k) ks = ks"
    by (auto simp: list_all_iff filter_id_conv)
  ultimately show ?thesis by (simp add: entriesOrder_def)
qed

subsection \<open>The advisory texts\<close>

lemma lengthAdvisory_neq_baseline: "lengthAdvisory n \<noteq> baselineAdvisory"
  by (simp add: lengthAdvisory_def baselineAdvisory_def)

lemma lengthAdvisory_neq_complexity: "lengthAdvisory n \<noteq> complexityAdvisory"
  by (simp add: lengthAdvisory_def complexityAdvisory_def)

lemma complexity_neq_baseline: "complexityAdvisory \<noteq> baselineAdvisory"
  by (simp add: complexityAdvisory_def baselineAdvisory_def)

lemma split_no_terminator:
  "\<forall>c \<in> set s. \<not> isTerminator c \<Longrightarrow> split isTerminator s = [s]"
  by (simp add: split_def split_acc_no_sep)

lemma removeWhiteSpace_blank: "list_all isWhiteSpace s \<Longrightarrow> filter (\<lambda>c. \<not> isWhiteSpace c) s = []"
  by (simp add: list_all_iff filter_empty_conv)

subsection \<open>The sentences as the specification describes them\<close>

lemma isTerminator_terminators: "isTerminator = (\<lambda>c. c \<in> set terminators)"
  by (rule ext) (auto simp: isTerminator_def terminators_def)

lemma split_acc_first:
  "split_acc sep cur s =
     (case dropWhile (\<lambda>c. \<not> sep c) s of
        [] \<Rightarrow> [rev cur @ s]
      | c # rest \<Rightarrow> (rev cur @ takeWhile (\<lambda>c. \<not> sep c) s) # split_acc sep [] rest)"
proof (induction s arbitrary: cur)
  case Nil
  show ?case by simp
next
  case (Cons a s)
  show ?case
  proof (cases "sep a")
    case True
    then show ?thesis by simp
  next
    case False
    then show ?thesis
      by (simp add: Cons.IH [of "a # cur"] list.case_eq_if)
  qed
qed

lemma split_segments: "split sep s = segments sep s"
proof (induction sep s rule: segments.induct)
  case (1 sep s)
  show ?case
  proof (cases "dropWhile (\<lambda>c. \<not> sep c) s")
    case Nil
    show ?thesis
      unfolding split_def split_acc_first [of sep "[]" s] segments.simps [of sep s] Nil
      by simp
  next
    case (Cons c rest)
    from "1.IH" [OF Cons] have "split_acc sep [] rest = segments sep rest"
      by (simp add: split_def)
    then show ?thesis
      unfolding split_def split_acc_first [of sep "[]" s] segments.simps [of sep s] Cons
      by simp
  qed
qed

lemma length_split_acc: "length (split_acc sep cur s) = Suc (length (filter sep s))"
  by (induction s arbitrary: cur) simp_all

lemma length_split: "length (split sep s) = Suc (length (filter sep s))"
  by (simp add: split_def length_split_acc)

lemma trim_stripWhiteSpace: "trim s = stripWhiteSpace s"
proof (cases "dropWhile isWhiteSpace s")
  case Nil
  then have a: "\<forall>c \<in> set s. isWhiteSpace c" by (simp add: dropWhile_eq_Nil_conv)
  then have r: "dropWhile isWhiteSpace (rev s) = []" by (subst dropWhile_eq_Nil_conv) simp
  have "stripWhiteSpace s = []" unfolding stripWhiteSpace_def r by simp
  moreover have "trim s = []" unfolding trim_def Nil by simp
  ultimately show ?thesis by simp
next
  case (Cons x t)
  then have x: "\<not> isWhiteSpace x" by (metis hd_dropWhile list.sel(1) list.distinct(1))
  define a where "a = takeWhile isWhiteSpace s"
  have s: "s = a @ x # t" unfolding a_def using Cons takeWhile_dropWhile_id [of isWhiteSpace s] by simp
  have a: "\<forall>c \<in> set a. isWhiteSpace c" unfolding a_def by (auto dest: set_takeWhileD)
  have "x \<in> set (rev (x # t))" by simp
  with x have d: "dropWhile isWhiteSpace (rev (x # t) @ rev a) = dropWhile isWhiteSpace (rev (x # t)) @ rev a"
    by (intro dropWhile_append1) auto
  have "dropWhile isWhiteSpace (rev (x # t)) \<noteq> []"
    using x by (auto simp: dropWhile_eq_Nil_conv)
  moreover have "last (dropWhile isWhiteSpace (rev t @ [x])) = x"
    using x by (induction "rev t") (auto simp: dropWhile_append)
  ultimately obtain u where u: "rev (dropWhile isWhiteSpace (rev (x # t))) = x # u"
    by (metis (no_types, lifting) append_butlast_last_id rev.simps(2) rev_append rev_rev_ident rev_singleton_conv append_Cons append_Nil)
  have "stripWhiteSpace s = dropWhile isWhiteSpace (a @ rev (dropWhile isWhiteSpace (rev (x # t))))"
    unfolding stripWhiteSpace_def s using d by simp
  also have "\<dots> = x # u" unfolding u using a x by (simp add: dropWhile_append)
  finally have "stripWhiteSpace s = x # u" .
  moreover have "trim s = x # u" unfolding trim_def Cons using u by simp
  ultimately show ?thesis by simp
qed

lemma endingKeys_sentenceEndings: "endingKeys text = sentenceEndings text"
proof -
  have "trim = stripWhiteSpace" by (rule ext) (rule trim_stripWhiteSpace)
  then show ?thesis
    by (simp add: endingKeys_def sentenceEndings_def split_segments isTerminator_terminators)
qed

subsection \<open>Decimal digits\<close>

lemma indexValue_snoc: "indexValue (ds @ [c]) = 10 * indexValue ds + unat (c - 0x30)"
  by (simp add: indexValue_def)

lemma digit_facts:
  assumes "m < 10"
  shows "isDigit (0x30 + of_nat m)" and "unat ((0x30 :: code_unit) + of_nat m - 0x30) = m"
    and "unat (of_nat m :: code_unit) = m"
proof -
  from assms have m: "m \<in> {0, 1, 2, 3, 4, 5, 6, 7, 8, 9}" by auto
  then show "isDigit (0x30 + of_nat m)" by (auto simp: isDigit_def)
  from m show "unat ((0x30 :: code_unit) + of_nat m - 0x30) = m" by auto
  from m show "unat (of_nat m :: code_unit) = m" by auto
qed

lemma decimal_digits: "list_all isDigit (decimal n)"
proof (induction n rule: decimal.induct)
  case (1 n)
  show ?case
  proof (cases "n < 10")
    case True
    then show ?thesis by (simp add: decimal.simps [of n] digit_facts)
  next
    case False
    with "1.IH" show ?thesis by (simp add: decimal.simps [of n] digit_facts)
  qed
qed

lemma decimal_value: "indexValue (decimal n) = n"
proof (induction n rule: decimal.induct)
  case (1 n)
  show ?case
  proof (cases "n < 10")
    case True
    then show ?thesis
      using indexValue_snoc [of "[]"] by (simp add: decimal.simps [of n] digit_facts indexValue_def)
  next
    case False
    with "1.IH" show ?thesis
      by (simp add: decimal.simps [of n] indexValue_snoc digit_facts)
  qed
qed

subsection \<open>Explicit flags, a pattern that the constructor rejects\<close>

lemma matchCount_countMatches: "matchCount E text p = countMatches E [0x67] text p"
  by (simp add: matchCount_def countMatches_def flags_g_def)

lemma literalEngine_countMatches:
  "\<not> list_ex isSyntaxCharacter p \<Longrightarrow>
   countMatches literalEngine flags t p = length (literalMatches p 0 t)"
  by (simp add: countMatches_def literalEngine_def split: list.splits)

lemma literalEngine_unterminated:
  "RegExp literalEngine [0x28] flags_g =
     Inl (ascii ''Invalid regular expression: /(/g: Unterminated group'')"
  by (simp add: literalEngine_def isSyntaxCharacter_def flags_g_def ascii_def)

lemma analyzeText_first_rule_throws:
  assumes "\<not> list_all isWhiteSpace text"
    and "ambiguousPhrases mediaRules = phrase # rest"
    and "RegExp E (phrase_text phrase) flags_g = Inl msg"
  shows "analyzeText E text mediaRules detailed = Inl (analysisErrorMessage msg)"
proof -
  from assms(1) have "\<not> (text = [] \<or> trim text = [])" by (simp add: guard_iff)
  with assms(2,3) show ?thesis
    by (simp add: analyzeText_def analyzeText_try_def)
qed

section \<open>The properties\<close>

text \<open>
  C1, as the specification has it, fails for a rule set with a pattern that the
  constructor rejects: for the text \<open>abc\<close> and the single rule \<open>(\<close> the analysis returns
  no result, and so no score; it throws.
\<close>

theorem mediaScore_formula_counterexample:
  "[0x61, 0x62, 0x63] \<noteq> ([] :: jsstring) \<and>
   \<not> list_all isWhiteSpace [0x61, 0x62, 0x63] \<and>
   analyzeText literalEngine [0x61, 0x62, 0x63]
     \<lparr>ambiguousPhrases = [\<lparr>phrase_text = [0x28], phrase_suggestion = []\<rparr>],
      repetitivePatterns = [], mediaSpecificRules = []\<rparr> False =
     Inl ([0x30C6, 0x30AD, 0x30B9, 0x30C8, 0x5206, 0x6790, 0x4E2D, 0x306B, 0x30A8, 0x30E9,
           0x30FC, 0x304C, 0x767A, 0x751F, 0x3057, 0x307E, 0x3057, 0x305F, 0x3A, 0x20] @
          ascii ''Invalid regular expression: /(/g: Unterminated group'')"
proof -
  have b: "\<not> list_all isWhiteSpace [0x61, 0x62, 0x63]" by (simp add: isWhiteSpace_def)
  have "analyzeText literalEngine [0x61, 0x62, 0x63]
     \<lparr>ambiguousPhrases = [\<lparr>phrase_text = [0x28], phrase_suggestion = []\<rparr>],
      repetitivePatterns = [], mediaSpecificRules = []\<rparr> False =
     Inl (analysisErrorMessage (ascii ''Invalid regular expression: /(/g: Unterminated group''))"
    by (rule analyzeText_first_rule_throws
          [OF b, where phrase = "\<lparr>phrase_text = [0x28], phrase_suggestion = []\<rparr>" and rest = "[]"])
      (simp_all add: literalEngine_unterminated)
  with b show ?thesis by (simp add: analysisErrorMessage_def)
qed

text \<open>
  C1, amended. For every text that is neither empty nor white space only and every rule
  set whose patterns the constructor accepts, the analysis returns a result with
  \<open>mediaScore = max(0, 100 - 5 * totalIssues)\<close>, where \<open>totalIssues\<close> is the number of
  entries of the three issue lists: an integer from 0 to 100, 85 for 3 issues and 0 for
  25 issues.
\<close>

theorem mediaScore_formula:
  assumes "text \<noteq> []" and "\<not> list_all isWhiteSpace text" and "patternsCompile E mediaRules"
  shows "\<exists>r. analyzeText E text mediaRules detailed = Inr r \<and>
           mediaScore r =
             max 0 (100 - 5 * int (length (ambiguousPhrases_res r) + length (repetitiveEndings r) +
                                   length (mediaSpecificIssues r))) \<and>
           0 \<le> mediaScore r \<and> mediaScore r \<le> 100 \<and>
           (length (ambiguousPhrases_res r) + length (repetitiveEndings r) +
              length (mediaSpecificIssues r) = 3 \<longrightarrow> mediaScore r = 85) \<and>
           (length (ambiguousPhrases_res r) + length (repetitiveEndings r) +
              length (mediaSpecificIssues r) = 25 \<longrightarrow> mediaScore r = 0)"
proof -
  from analyzeText_fields [OF assms(2,3)] obtain r
    where r: "analyzeText E text mediaRules detailed = Inr r"
      and s: "mediaScore r = scoreOf (totalIssues r)"
    by blast
  define n where "n = length (ambiguousPhrases_res r) + length (repetitiveEndings r) +
    length (mediaSpecificIssues r)"
  from s have "mediaScore r = max 0 (100 - 5 * int n)"
    by (simp add: scoreOf_def totalIssues_def n_def)
  then have "mediaScore r = max 0 (100 - 5 * int n) \<and> 0 \<le> mediaScore r \<and> mediaScore r \<le> 100 \<and>
    (n = 3 \<longrightarrow> mediaScore r = 85) \<and> (n = 25 \<longrightarrow> mediaScore r = 0)"
    by auto
  with r show ?thesis unfolding n_def by blast
qed

theorem mediaScore_formula_witness:
  "(\<exists>r. analyzeText literalEngine [0x61, 0x62, 0x63]
          \<lparr>ambiguousPhrases = [\<lparr>phrase_text = [0x61], phrase_suggestion = []\<rparr>,
                                \<lparr>phrase_text = [0x62], phrase_suggestion = []\<rparr>],
            repetitivePatterns = [],
            mediaSpecificRules = [\<lparr>rule_pattern = [0x63], rule_description = [], rule_mediaType = []\<rparr>]\<rparr>
          False = Inr r \<and>
        r = \<lparr>mediaScore = 85,
          ambiguousPhrases_res = [\<lparr>amb_text = [0x61], amb_count = 1, amb_suggestion = []\<rparr>,
                                  \<lparr>amb_text = [0x62], amb_count = 1, amb_suggestion = []\<rparr>],
          repetitiveEndings = [],
          mediaSpecificIssues = [\<lparr>med_pattern = [0x63], med_count = 1, med_description = []\<rparr>],
          improvements = []\<rparr> \<and>
        length (ambiguousPhrases_res r) + length (repetitiveEndings r) +
          length (mediaSpecificIssues r) = 3 \<and> mediaScore r = 85) \<and>
   (\<exists>r. analyzeText literalEngine [0x61]
          \<lparr>ambiguousPhrases = replicate 25 \<lparr>phrase_text = [0x61], phrase_suggestion = []\<rparr>,
            repetitivePatterns = [], mediaSpecificRules = []\<rparr>
          False = Inr r \<and>
        length (ambiguousPhrases_res r) + length (repetitiveEndings r) +
          length (mediaSpecificIssues r) = 25 \<and> mediaScore r = 0)"
proof
  let ?rules = "\<lparr>ambiguousPhrases = [\<lparr>phrase_text = [0x61], phrase_suggestion = []\<rparr>,
                                \<lparr>phrase_text = [0x62], phrase_suggestion = []\<rparr>],
            repetitivePatterns = [],
            mediaSpecificRules = [\<lparr>rule_pattern = [0x63], rule_description = [], rule_mediaType = []\<rparr>]\<rparr>"
  let ?text = "[0x61, 0x62, 0x63] :: jsstring"
  have h1: "?text \<noteq> []" by simp
  have h2: "\<not> list_all isWhiteSpace ?text" by (simp add: isWhiteSpace_def)
  have h3: "patternsCompile literalEngine ?rules"
    by (simp add: patternsCompile_def literalEngine_compiles isSyntaxCharacter_def)
  have k: "endingKeys ?text = [?text]"
    by (simp add: endingKeys_def split_def isTerminator_def trim_def isWhiteSpace_def trailing5_def)
  have n: "issuesFound literalEngine ?text ?rules = 3"
    by (simp add: issuesFound_def k entriesOrder_def literalEngine_matchCount isSyntaxCharacter_def)
  from analyzeText_fields [OF h2 h3, of False] n
  have "\<exists>r. analyzeText literalEngine ?text ?rules False = Inr r \<and>
          length (ambiguousPhrases_res r) + length (repetitiveEndings r) +
            length (mediaSpecificIssues r) = 3"
    by (auto simp: totalIssues_def)
  with mediaScore_formula [OF h1 h2 h3, of False]
  obtain r where r: "analyzeText literalEngine ?text ?rules False = Inr r"
    and p: "length (ambiguousPhrases_res r) + length (repetitiveEndings r) +
            length (mediaSpecificIssues r) = 3" "mediaScore r = 85"
    by auto
  txt \<open>The run of the model on this input.\<close>
  have run: "analyzeText literalEngine ?text
          \<lparr>ambiguousPhrases = [\<lparr>phrase_text = [0x61], phrase_suggestion = []\<rparr>,
                                \<lparr>phrase_text = [0x62], phrase_suggestion = []\<rparr>],
            repetitivePatterns = [],
            mediaSpecificRules = [\<lparr>rule_pattern = [0x63], rule_description = [], rule_mediaType = []\<rparr>]\<rparr>
          False =
     Inr \<lparr>mediaScore = 85,
          ambiguousPhrases_res = [\<lparr>amb_text = [0x61], amb_count = 1, amb_suggestion = []\<rparr>,
                                  \<lparr>amb_text = [0x62], amb_count = 1, amb_suggestion = []\<rparr>],
          repetitiveEndings = [],
          mediaSpecificIssues = [\<lparr>med_pattern = [0x63], med_count = 1, med_description = []\<rparr>],
          improvements = []\<rparr>"
  proof -
    let ?text = "[0x61, 0x62, 0x63] :: jsstring"
    have g: "?text \<noteq> []" "trim ?text \<noteq> []"
      by (simp_all add: trim_def isWhiteSpace_def)
    have a: "ambiguousPhrases_forEach literalEngine ?text
          [\<lparr>phrase_text = [0x61], phrase_suggestion = []\<rparr>,
           \<lparr>phrase_text = [0x62], phrase_suggestion = []\<rparr>] [] =
        Inr [\<lparr>amb_text = [0x61], amb_count = 1, amb_suggestion = []\<rparr>,
             \<lparr>amb_text = [0x62], amb_count = 1, amb_suggestion = []\<rparr>]"
      by (simp add: literalEngine_def isSyntaxCharacter_def)
    have m: "mediaSpecificRules_forEach literalEngine ?text
          [\<lparr>rule_pattern = [0x63], rule_description = [], rule_mediaType = []\<rparr>] [] =
        Inr [\<lparr>med_pattern = [0x63], med_count = 1, med_description = []\<rparr>]"
      by (simp add: literalEngine_def isSyntaxCharacter_def)
    have s: "split isTerminator ?text = [?text]"
      by (simp add: split_def isTerminator_def)
    have t: "sentences_forEach [?text] [] = [(?text, 1)]"
      by (simp add: trim_def isWhiteSpace_def slice_def or_zero_def Let_def)
    have e: "Object_entries [(?text, 1)] = [(?text, 1)]"
      by (simp add: Object_entries_def isArrayIndex_def isDigit_def)
    show ?thesis
      unfolding analyzeText_def analyzeText_try_def Let_def s t e
      using g by (simp add: emptyResult_def literalEngine_def isSyntaxCharacter_def flags_g_def)
  qed
  from r run have "r = \<lparr>mediaScore = 85,
          ambiguousPhrases_res = [\<lparr>amb_text = [0x61], amb_count = 1, amb_suggestion = []\<rparr>,
                                  \<lparr>amb_text = [0x62], amb_count = 1, amb_suggestion = []\<rparr>],
          repetitiveEndings = [],
          mediaSpecificIssues = [\<lparr>med_pattern = [0x63], med_count = 1, med_description = []\<rparr>],
          improvements = []\<rparr>"
    by simp
  with r p
  show "\<exists>r. analyzeText literalEngine ?text ?rules False = Inr r \<and>
          r = \<lparr>mediaScore = 85,
          ambiguousPhrases_res = [\<lparr>amb_text = [0x61], amb_count = 1, amb_suggestion = []\<rparr>,
                                  \<lparr>amb_text = [0x62], amb_count = 1, amb_suggestion = []\<rparr>],
          repetitiveEndings = [],
          mediaSpecificIssues = [\<lparr>med_pattern = [0x63], med_count = 1, med_description = []\<rparr>],
          improvements = []\<rparr> \<and>
          length (ambiguousPhrases_res r) + length (repetitiveEndings r) +
            length (mediaSpecificIssues r) = 3 \<and> mediaScore r = 85"
    by blast
next
  let ?rules = "\<lparr>ambiguousPhrases = replicate 25 \<lparr>phrase_text = [0x61], phrase_suggestion = []\<rparr>,
            repetitivePatterns = [], mediaSpecificRules = []\<rparr>"
  let ?text = "[0x61] :: jsstring"
  have h1: "?text \<noteq> []" by simp
  have h2: "\<not> list_all isWhiteSpace ?text" by (simp add: isWhiteSpace_def)
  have h3: "patternsCompile literalEngine ?rules"
    by (simp add: patternsCompile_def literalEngine_compiles isSyntaxCharacter_def list_all_iff)
  have k: "endingKeys ?text = [?text]"
    by (simp add: endingKeys_def split_def isTerminator_def trim_def isWhiteSpace_def trailing5_def)
  have n: "issuesFound literalEngine ?text ?rules = 25"
    by (simp add: issuesFound_def k entriesOrder_def literalEngine_matchCount isSyntaxCharacter_def)
  from analyzeText_fields [OF h2 h3, of False] n
  have "\<exists>r. analyzeText literalEngine ?text ?rules False = Inr r \<and>
          length (ambiguousPhrases_res r) + length (repetitiveEndings r) +
            length (mediaSpecificIssues r) = 25"
    by (auto simp: totalIssues_def)
  with mediaScore_formula [OF h1 h2 h3, of False]
  show "\<exists>r. analyzeText literalEngine ?text ?rules False = Inr r \<and>
          length (ambiguousPhrases_res r) + length (repetitiveEndings r) +
            length (mediaSpecificIssues r) = 25 \<and> mediaScore r = 0"
    by auto
qed

text \<open>
  C2. For every rule set, every engine and either value of the flag: if the text is empty or
  has white space only, the result is the zero-valued one (score 0, all four lists empty),
  whatever the rules are, so none of them is evaluated.
\<close>

theorem empty_input_guard:
  assumes "text = [] \<or> list_all isWhiteSpace text"
  shows "analyzeText E text mediaRules detailed =
           Inr \<lparr>mediaScore = 0, ambiguousPhrases_res = [], repetitiveEndings = [],
                mediaSpecificIssues = [], improvements = []\<rparr>"
proof -
  from assms have "list_all isWhiteSpace text" by auto
  then show ?thesis by (simp add: analyzeText_blank emptyResult_def)
qed

theorem empty_input_guard_witness:
  "analyzeText literalEngine []
     \<lparr>ambiguousPhrases = [\<lparr>phrase_text = [0x28], phrase_suggestion = []\<rparr>],
      repetitivePatterns = [], mediaSpecificRules = []\<rparr> True =
     Inr \<lparr>mediaScore = 0, ambiguousPhrases_res = [], repetitiveEndings = [],
          mediaSpecificIssues = [], improvements = []\<rparr> \<and>
   list_all isWhiteSpace [0x20, 0x3000, 0x0A] \<and>
   analyzeText literalEngine [0x20, 0x3000, 0x0A]
     \<lparr>ambiguousPhrases = [\<lparr>phrase_text = [0x28], phrase_suggestion = []\<rparr>],
      repetitivePatterns = [],
      mediaSpecificRules = [\<lparr>rule_pattern = [0x20], rule_description = [], rule_mediaType = []\<rparr>]\<rparr> False =
     Inr \<lparr>mediaScore = 0, ambiguousPhrases_res = [], repetitiveEndings = [],
          mediaSpecificIssues = [], improvements = []\<rparr>"
proof (intro conjI)
  show w: "list_all isWhiteSpace [0x20, 0x3000, 0x0A]" by (simp add: isWhiteSpace_def)
  show "analyzeText literalEngine []
     \<lparr>ambiguousPhrases = [\<lparr>phrase_text = [0x28], phrase_suggestion = []\<rparr>],
      repetitivePatterns = [], mediaSpecificRules = []\<rparr> True =
     Inr \<lparr>mediaScore = 0, ambiguousPhrases_res = [], repetitiveEndings = [],
          mediaSpecificIssues = [], improvements = []\<rparr>"
    by (rule empty_input_guard) simp
  show "analyzeText literalEngine [0x20, 0x3000, 0x0A]
     \<lparr>ambiguousPhrases = [\<lparr>phrase_text = [0x28], phrase_suggestion = []\<rparr>],
      repetitivePatterns = [],
      mediaSpecificRules = [\<lparr>rule_pattern = [0x20], rule_description = [], rule_mediaType = []\<rparr>]\<rparr> False =
     Inr \<lparr>mediaScore = 0, ambiguousPhrases_res = [], repetitiveEndings = [],
          mediaSpecificIssues = [], improvements = []\<rparr>"
    by (rule empty_input_guard) (use w in simp)
qed

text \<open>
  C3, as the specification has it, fails for a rule set with a pattern that the
  constructor rejects: in \<open>ab.ab.ab\<close> the ending \<open>ab\<close> has the tally 3, and with the
  single rule \<open>(\<close> no entry is emitted, since the analysis throws.
\<close>

theorem repetitiveEndings_threshold_counterexample:
  "[0x61, 0x62, 0x2E, 0x61, 0x62, 0x2E, 0x61, 0x62] \<noteq> ([] :: jsstring) \<and>
   count_list (sentenceEndings [0x61, 0x62, 0x2E, 0x61, 0x62, 0x2E, 0x61, 0x62]) [0x61, 0x62] = 3 \<and>
   analyzeText literalEngine [0x61, 0x62, 0x2E, 0x61, 0x62, 0x2E, 0x61, 0x62]
     \<lparr>ambiguousPhrases = [\<lparr>phrase_text = [0x28], phrase_suggestion = []\<rparr>],
      repetitivePatterns = [], mediaSpecificRules = []\<rparr> False =
     Inl ([0x30C6, 0x30AD, 0x30B9, 0x30C8, 0x5206, 0x6790, 0x4E2D, 0x306B, 0x30A8, 0x30E9,
           0x30FC, 0x304C, 0x767A, 0x751F, 0x3057, 0x307E, 0x3057, 0x305F, 0x3A, 0x20] @
          ascii ''Invalid regular expression: /(/g: Unterminated group'')"
proof -
  let ?text = "[0x61, 0x62, 0x2E, 0x61, 0x62, 0x2E, 0x61, 0x62] :: jsstring"
  have b: "\<not> list_all isWhiteSpace ?text" by (simp add: isWhiteSpace_def)
  have "endingKeys ?text = [[0x61, 0x62], [0x61, 0x62], [0x61, 0x62]]"
    by (simp add: endingKeys_def split_def isTerminator_def trim_def isWhiteSpace_def trailing5_def)
  then have k: "count_list (sentenceEndings ?text) [0x61, 0x62] = 3"
    by (simp add: endingKeys_sentenceEndings [symmetric])
  have "analyzeText literalEngine ?text
     \<lparr>ambiguousPhrases = [\<lparr>phrase_text = [0x28], phrase_suggestion = []\<rparr>],
      repetitivePatterns = [], mediaSpecificRules = []\<rparr> False =
     Inl (analysisErrorMessage (ascii ''Invalid regular expression: /(/g: Unterminated group''))"
    by (rule analyzeText_first_rule_throws
          [OF b, where phrase = "\<lparr>phrase_text = [0x28], phrase_suggestion = []\<rparr>" and rest = "[]"])
      (simp_all add: literalEngine_unterminated)
  with k show ?thesis by (simp add: analysisErrorMessage_def)
qed

text \<open>
  C3, amended. For every text and every rule set whose patterns the constructor accepts:
  the text is cut at the terminators, and every sentence that is not empty once the
  white space around it is removed contributes its last five code units (all of it if
  shorter) as ending. For each ending the result has exactly one entry of
  \<open>repetitiveEndings\<close> if its tally is at least 3, and none otherwise. The entry has the
  ending, the tally, and the suggestion of the source with the tally in decimal
  digits between its two fixed parts.
\<close>

theorem repetitiveEndings_threshold:
  assumes "patternsCompile E mediaRules"
  shows "\<exists>r. analyzeText E text mediaRules detailed = Inr r \<and>
           (\<forall>k. filter (\<lambda>e. end_pattern e = k) (repetitiveEndings r) =
                  (if 3 \<le> count_list (sentenceEndings text) k
                   then [\<lparr>end_pattern = k, end_count = count_list (sentenceEndings text) k,
                          end_suggestion =
                            [0x8A9E, 0x5C3E, 0x306E, 0x8868, 0x73FE, 0x3092, 0x5909, 0x3048,
                             0x3066, 0x307F, 0x3066, 0x304F, 0x3060, 0x3055, 0x3044, 0x3002,
                             0x73FE, 0x5728, 0x20] @
                            decimal (count_list (sentenceEndings text) k) @
                            [0x20, 0x56DE, 0x4F7F, 0x7528, 0x3055, 0x308C, 0x3066, 0x3044,
                             0x307E, 0x3059, 0x3002]\<rparr>]
                   else [])) \<and>
           (\<forall>n. list_all isDigit (decimal n) \<and> indexValue (decimal n) = n)"
proof -
  have d: "\<forall>n. list_all isDigit (decimal n) \<and> indexValue (decimal n) = n"
    by (simp add: decimal_digits decimal_value)
  show ?thesis
  proof (cases "list_all isWhiteSpace text")
    case True
    then have "sentenceEndings text = []"
      by (simp add: endingKeys_sentenceEndings [symmetric] endingKeys_blank)
    with True d show ?thesis
      by (simp add: analyzeText_blank emptyResult_def)
  next
    case False
    from analyzeText_fields [OF False assms] obtain r
      where r: "analyzeText E text mediaRules detailed = Inr r"
        and e: "repetitiveEndings r =
                  map (endingIssue (endingKeys text))
                    (filter (\<lambda>k. count_list (endingKeys text) k \<ge> 3)
                       (entriesOrder (firstOccurrences (endingKeys text))))"
      by blast
    have "filter (\<lambda>e. end_pattern e = k) (repetitiveEndings r) =
            (if 3 \<le> count_list (sentenceEndings text) k
             then [\<lparr>end_pattern = k, end_count = count_list (sentenceEndings text) k,
                    end_suggestion =
                      [0x8A9E, 0x5C3E, 0x306E, 0x8868, 0x73FE, 0x3092, 0x5909, 0x3048,
                       0x3066, 0x307F, 0x3066, 0x304F, 0x3060, 0x3055, 0x3044, 0x3002,
                       0x73FE, 0x5728, 0x20] @
                      decimal (count_list (sentenceEndings text) k) @
                      [0x20, 0x56DE, 0x4F7F, 0x7528, 0x3055, 0x308C, 0x3066, 0x3044,
                       0x307E, 0x3059, 0x3002]\<rparr>]
             else [])" for k
    proof -
      have "3 \<le> count_list (endingKeys text) k \<Longrightarrow> k \<in> set (endingKeys text)"
        by (metis count_list_0_iff not_numeral_le_zero)
      then show ?thesis
        unfolding e endingKeys_sentenceEndings [symmetric]
        by (auto simp: filter_endingIssues endingIssue_def endingSuggestion_def)
    qed
    with r d show ?thesis by blast
  qed
qed

theorem repetitiveEndings_threshold_witness:
  "patternsCompile literalEngine emptyRules \<and>
   (\<exists>r. analyzeText literalEngine
           [0x9, 0xA, 0xB, 0xC, 0xD, 0x20, 0xA0, 0x1680, 0x2000, 0x2001, 0x2002, 0x2003, 0x2004,
            0x2005, 0x2006, 0x2007, 0x2008, 0x2009, 0x200A, 0x2028, 0x2029, 0x202F, 0x205F, 0x3000, 0xFEFF, 0x61,
            0x62, 0x3002, 0x61, 0x62, 0x9, 0xA, 0xB, 0xC, 0xD, 0x20, 0xA0, 0x1680, 0x2000,
            0x2001, 0x2002, 0x2003, 0x2004, 0x2005, 0x2006, 0x2007, 0x2008, 0x2009, 0x200A, 0x2028, 0x2029, 0x202F,
            0x205F, 0x3000, 0xFEFF, 0xFF0E, 0x3000, 0x61, 0x62, 0xA, 0x2E, 0x63, 0x64, 0x21, 0x63,
            0x64, 0x3F, 0x78, 0x61, 0x62, 0x63, 0x64, 0x65, 0x66, 0x67, 0xFF01, 0xFF1F, 0x20,
            0x20, 0x3002, 0x200B, 0x85]
           emptyRules False = Inr r \<and>
         r = \<lparr>mediaScore = 95, ambiguousPhrases_res = [],
             repetitiveEndings =
               [\<lparr>end_pattern = [0x61, 0x62], end_count = 3,
                 end_suggestion =
                   [0x8A9E, 0x5C3E, 0x306E, 0x8868, 0x73FE, 0x3092, 0x5909, 0x3048, 0x3066, 0x307F,
                0x3066, 0x304F, 0x3060, 0x3055, 0x3044, 0x3002, 0x73FE, 0x5728, 0x20, 0x33, 0x20,
                0x56DE, 0x4F7F, 0x7528, 0x3055, 0x308C, 0x3066, 0x3044, 0x307E, 0x3059, 0x3002]\<rparr>],
             mediaSpecificIssues = [], improvements = []\<rparr> \<and>
         filter (\<lambda>e. end_pattern e = [0x61, 0x62]) (repetitiveEndings r) =
           [\<lparr>end_pattern = [0x61, 0x62], end_count = 3,
             end_suggestion =
               [0x8A9E, 0x5C3E, 0x306E, 0x8868, 0x73FE, 0x3092, 0x5909, 0x3048, 0x3066, 0x307F,
                0x3066, 0x304F, 0x3060, 0x3055, 0x3044, 0x3002, 0x73FE, 0x5728, 0x20, 0x33, 0x20,
                0x56DE, 0x4F7F, 0x7528, 0x3055, 0x308C, 0x3066, 0x3044, 0x307E, 0x3059, 0x3002]\<rparr>] \<and>
         filter (\<lambda>e. end_pattern e = [0x63, 0x64]) (repetitiveEndings r) = [] \<and>
         filter (\<lambda>e. end_pattern e = [0x63, 0x64, 0x65, 0x66, 0x67]) (repetitiveEndings r) = [])"
proof -
  let ?text = "[0x9, 0xA, 0xB, 0xC, 0xD, 0x20, 0xA0, 0x1680, 0x2000, 0x2001, 0x2002, 0x2003, 0x2004,
            0x2005, 0x2006, 0x2007, 0x2008, 0x2009, 0x200A, 0x2028, 0x2029, 0x202F, 0x205F, 0x3000, 0xFEFF, 0x61,
            0x62, 0x3002, 0x61, 0x62, 0x9, 0xA, 0xB, 0xC, 0xD, 0x20, 0xA0, 0x1680, 0x2000,
            0x2001, 0x2002, 0x2003, 0x2004, 0x2005, 0x2006, 0x2007, 0x2008, 0x2009, 0x200A, 0x2028, 0x2029, 0x202F,
            0x205F, 0x3000, 0xFEFF, 0xFF0E, 0x3000, 0x61, 0x62, 0xA, 0x2E, 0x63, 0x64, 0x21, 0x63,
            0x64, 0x3F, 0x78, 0x61, 0x62, 0x63, 0x64, 0x65, 0x66, 0x67, 0xFF01, 0xFF1F, 0x20,
            0x20, 0x3002, 0x200B, 0x85] :: jsstring"
  let ?sentences = "[[0x9, 0xA, 0xB, 0xC, 0xD, 0x20, 0xA0, 0x1680, 0x2000, 0x2001, 0x2002, 0x2003,
       0x2004, 0x2005, 0x2006, 0x2007, 0x2008, 0x2009, 0x200A, 0x2028, 0x2029, 0x202F, 0x205F,
       0x3000, 0xFEFF, 0x61, 0x62],
      [0x61, 0x62, 0x9, 0xA, 0xB, 0xC, 0xD, 0x20, 0xA0, 0x1680, 0x2000, 0x2001, 0x2002, 0x2003,
       0x2004, 0x2005, 0x2006, 0x2007, 0x2008, 0x2009, 0x200A, 0x2028, 0x2029, 0x202F, 0x205F,
       0x3000, 0xFEFF],
      [0x3000, 0x61, 0x62, 0xA], [0x63, 0x64], [0x63, 0x64],
      [0x78, 0x61, 0x62, 0x63, 0x64, 0x65, 0x66, 0x67], [], [0x20, 0x20], [0x200B, 0x85]]
      :: jsstring list"
  let ?keys = "[[0x61, 0x62], [0x61, 0x62], [0x61, 0x62], [0x63, 0x64], [0x63, 0x64],
       [0x63, 0x64, 0x65, 0x66, 0x67], [0x200B, 0x85]] :: jsstring list"
  have h: "patternsCompile literalEngine emptyRules"
    by (simp add: patternsCompile_def emptyRules_def)
  txt \<open>The run of the model on the text, step by step.\<close>
  have g: "?text \<noteq> []" "trim ?text \<noteq> []"
    by (simp_all add: trim_def isWhiteSpace_def)
  have s: "split isTerminator ?text = ?sentences"
    by (simp add: split_def isTerminator_def)
  have t: "sentences_forEach ?sentences [] =
      [([0x61, 0x62], 3), ([0x63, 0x64], 2), ([0x63, 0x64, 0x65, 0x66, 0x67], 1),
       ([0x200B, 0x85], 1)]"
    by (simp add: trim_def isWhiteSpace_def slice_def or_zero_def Let_def)
  have e: "Object_entries
      [([0x61, 0x62], 3), ([0x63, 0x64], 2), ([0x63, 0x64, 0x65, 0x66, 0x67], 1),
       ([0x200B, 0x85], 1)] =
      [([0x61, 0x62], 3), ([0x63, 0x64], 2), ([0x63, 0x64, 0x65, 0x66, 0x67], 1),
       ([0x200B, 0x85], 1)]"
    by (simp add: Object_entries_def isArrayIndex_def isDigit_def)
  have run: "analyzeText literalEngine ?text emptyRules False =
      Inr \<lparr>mediaScore = 95, ambiguousPhrases_res = [],
             repetitiveEndings =
               [\<lparr>end_pattern = [0x61, 0x62], end_count = 3,
                 end_suggestion =
                   [0x8A9E, 0x5C3E, 0x306E, 0x8868, 0x73FE, 0x3092, 0x5909, 0x3048, 0x3066, 0x307F,
                0x3066, 0x304F, 0x3060, 0x3055, 0x3044, 0x3002, 0x73FE, 0x5728, 0x20, 0x33, 0x20,
                0x56DE, 0x4F7F, 0x7528, 0x3055, 0x308C, 0x3066, 0x3044, 0x307E, 0x3059, 0x3002]\<rparr>],
             mediaSpecificIssues = [], improvements = []\<rparr>"
    unfolding analyzeText_def analyzeText_try_def Let_def s t e
    using g by (simp add: emptyRules_def emptyResult_def endingSuggestion_def decimal.simps)
  txt \<open>The endings of the specification, and what the theorem says of them.\<close>
  have "endingKeys ?text = ?keys"
    by (simp add: endingKeys_def s trim_def isWhiteSpace_def trailing5_def)
  then have k: "sentenceEndings ?text = ?keys"
    by (simp add: endingKeys_sentenceEndings [symmetric])
  have d: "decimal 3 = [0x33]" by (simp add: decimal.simps)
  from repetitiveEndings_threshold [OF h, of ?text False] obtain r
    where r: "analyzeText literalEngine ?text emptyRules False = Inr r"
      and f: "\<And>k. filter (\<lambda>e. end_pattern e = k) (repetitiveEndings r) =
                  (if 3 \<le> count_list (sentenceEndings ?text) k
                   then [\<lparr>end_pattern = k, end_count = count_list (sentenceEndings ?text) k,
                          end_suggestion =
                            [0x8A9E, 0x5C3E, 0x306E, 0x8868, 0x73FE, 0x3092, 0x5909, 0x3048,
                             0x3066, 0x307F, 0x3066, 0x304F, 0x3060, 0x3055, 0x3044, 0x3002,
                             0x73FE, 0x5728, 0x20] @
                            decimal (count_list (sentenceEndings ?text) k) @
                            [0x20, 0x56DE, 0x4F7F, 0x7528, 0x3055, 0x308C, 0x3066, 0x3044,
                             0x307E, 0x3059, 0x3002]\<rparr>]
                   else [])"
    by blast
  have c: "count_list (sentenceEndings ?text) [0x61, 0x62] = 3"
    "count_list (sentenceEndings ?text) [0x63, 0x64] = 2"
    "count_list (sentenceEndings ?text) [0x63, 0x64, 0x65, 0x66, 0x67] = 1"
    unfolding k by simp_all
  from f [of "[0x61, 0x62]"] f [of "[0x63, 0x64]"] f [of "[0x63, 0x64, 0x65, 0x66, 0x67]"]
  have "filter (\<lambda>e. end_pattern e = [0x61, 0x62]) (repetitiveEndings r) =
           [\<lparr>end_pattern = [0x61, 0x62], end_count = 3,
             end_suggestion =
               [0x8A9E, 0x5C3E, 0x306E, 0x8868, 0x73FE, 0x3092, 0x5909, 0x3048, 0x3066, 0x307F,
                0x3066, 0x304F, 0x3060, 0x3055, 0x3044, 0x3002, 0x73FE, 0x5728, 0x20, 0x33, 0x20,
                0x56DE, 0x4F7F, 0x7528, 0x3055, 0x308C, 0x3066, 0x3044, 0x307E, 0x3059, 0x3002]\<rparr>]"
    and "filter (\<lambda>e. end_pattern e = [0x63, 0x64]) (repetitiveEndings r) = []"
    and "filter (\<lambda>e. end_pattern e = [0x63, 0x64, 0x65, 0x66, 0x67]) (repetitiveEndings r) = []"
    unfolding c by (simp_all add: d)
  moreover from r run have "r = \<lparr>mediaScore = 95, ambiguousPhrases_res = [],
             repetitiveEndings =
               [\<lparr>end_pattern = [0x61, 0x62], end_count = 3,
                 end_suggestion =
                   [0x8A9E, 0x5C3E, 0x306E, 0x8868, 0x73FE, 0x3092, 0x5909, 0x3048, 0x3066, 0x307F,
                0x3066, 0x304F, 0x3060, 0x3055, 0x3044, 0x3002, 0x73FE, 0x5728, 0x20, 0x33, 0x20,
                0x56DE, 0x4F7F, 0x7528, 0x3055, 0x308C, 0x3066, 0x3044, 0x307E, 0x3059, 0x3002]\<rparr>],
             mediaSpecificIssues = [], improvements = []\<rparr>"
    by simp
  ultimately show ?thesis using h r by blast
qed

text \<open>
  C4, as the specification has it, fails: three sentences \<open>b\<close> followed by three sentences
  \<open>1\<close> give the entry of \<open>1\<close> before the entry of \<open>b\<close>, although \<open>b\<close> occurs first.
\<close>

theorem repetitiveEndings_first_occurrence_counterexample:
  "analyzeText literalEngine
     [0x62, 0x2E, 0x62, 0x2E, 0x62, 0x2E, 0x31, 0x2E, 0x31, 0x2E, 0x31] emptyRules False =
     Inr \<lparr>mediaScore = 90, ambiguousPhrases_res = [],
          repetitiveEndings =
            [\<lparr>end_pattern = [0x31], end_count = 3, end_suggestion = endingSuggestion 3\<rparr>,
             \<lparr>end_pattern = [0x62], end_count = 3, end_suggestion = endingSuggestion 3\<rparr>],
          mediaSpecificIssues = [], improvements = []\<rparr> \<and>
   firstOccurrences
     (endingKeys [0x62, 0x2E, 0x62, 0x2E, 0x62, 0x2E, 0x31, 0x2E, 0x31, 0x2E, 0x31]) =
     [[0x62], [0x31]]"
proof -
  let ?text = "[0x62, 0x2E, 0x62, 0x2E, 0x62, 0x2E, 0x31, 0x2E, 0x31, 0x2E, 0x31] :: jsstring"
  have b: "\<not> list_all isWhiteSpace ?text" by (simp add: isWhiteSpace_def)
  have h: "patternsCompile literalEngine emptyRules"
    by (simp add: patternsCompile_def emptyRules_def)
  have k: "endingKeys ?text = [[0x62], [0x62], [0x62], [0x31], [0x31], [0x31]]"
    by (simp add: endingKeys_def split_def isTerminator_def trim_def isWhiteSpace_def trailing5_def)
  have o: "entriesOrder [[0x62], [0x31]] = [[0x31], [0x62]]"
    by (simp add: entriesOrder_def isArrayIndex_def isDigit_def indexValue_def)
  have "analyzeText literalEngine ?text emptyRules False =
     Inr \<lparr>mediaScore = 90, ambiguousPhrases_res = [],
          repetitiveEndings =
            [\<lparr>end_pattern = [0x31], end_count = 3, end_suggestion = endingSuggestion 3\<rparr>,
             \<lparr>end_pattern = [0x62], end_count = 3, end_suggestion = endingSuggestion 3\<rparr>],
          mediaSpecificIssues = [], improvements = []\<rparr>"
    unfolding analyzeText_ok [OF b h]
    by (simp add: k o issuesFound_def scoreOf_def endingIssue_def emptyRules_def numeral_3_eq_3)
  moreover have "firstOccurrences (endingKeys ?text) = [[0x62], [0x31]]"
    by (simp add: k)
  ultimately show ?thesis by simp
qed

text \<open>
  C4, amended. The entries of \<open>repetitiveEndings\<close> come in the order in which
  \<open>Object.entries\<close> lists the keys of the tally: first the keys that are array indices
  (canonical decimal numbers such as \<open>1\<close> or \<open>2024\<close>) in ascending numeric order, then
  the other keys in the order of their first occurrence. When no ending key is an array
  index, this is the order of first occurrence.
\<close>

theorem repetitiveEndings_order:
  assumes "patternsCompile E mediaRules"
  shows "\<exists>r. analyzeText E text mediaRules detailed = Inr r \<and>
           map end_pattern (repetitiveEndings r) =
             filter (\<lambda>k. 3 \<le> count_list (endingKeys text) k)
               (sort_key indexValue (filter isArrayIndex (firstOccurrences (endingKeys text))) @
                filter (\<lambda>k. \<not> isArrayIndex k) (firstOccurrences (endingKeys text))) \<and>
           (list_all (\<lambda>k. \<not> isArrayIndex k) (endingKeys text) \<longrightarrow>
              map end_pattern (repetitiveEndings r) =
                filter (\<lambda>k. 3 \<le> count_list (endingKeys text) k) (firstOccurrences (endingKeys text)))"
proof (cases "list_all isWhiteSpace text")
  case True
  then show ?thesis
    by (simp add: analyzeText_blank endingKeys_blank emptyResult_def)
next
  case False
  from analyzeText_fields [OF False assms] obtain r
    where r: "analyzeText E text mediaRules detailed = Inr r"
      and e: "repetitiveEndings r =
                map (endingIssue (endingKeys text))
                  (filter (\<lambda>k. count_list (endingKeys text) k \<ge> 3)
                     (entriesOrder (firstOccurrences (endingKeys text))))"
    by blast
  have o: "map end_pattern (repetitiveEndings r) =
             filter (\<lambda>k. 3 \<le> count_list (endingKeys text) k)
               (entriesOrder (firstOccurrences (endingKeys text)))"
    unfolding e by (rule map_end_pattern_endingIssue)
  have n: "entriesOrder (firstOccurrences (endingKeys text)) = firstOccurrences (endingKeys text)"
    if "list_all (\<lambda>k. \<not> isArrayIndex k) (endingKeys text)"
  proof (rule entriesOrder_no_index)
    from that show "list_all (\<lambda>k. \<not> isArrayIndex k) (firstOccurrences (endingKeys text))"
      by (simp add: list_all_iff)
  qed
  have o1: "map end_pattern (repetitiveEndings r) =
             filter (\<lambda>k. 3 \<le> count_list (endingKeys text) k)
               (sort_key indexValue (filter isArrayIndex (firstOccurrences (endingKeys text))) @
                filter (\<lambda>k. \<not> isArrayIndex k) (firstOccurrences (endingKeys text)))"
    using o by (simp only: entriesOrder_def)
  have o2: "list_all (\<lambda>k. \<not> isArrayIndex k) (endingKeys text) \<longrightarrow>
              map end_pattern (repetitiveEndings r) =
                filter (\<lambda>k. 3 \<le> count_list (endingKeys text) k) (firstOccurrences (endingKeys text))"
    using o n by simp
  from r o1 o2 show ?thesis by blast
qed

theorem repetitiveEndings_order_witness:
  "patternsCompile literalEngine emptyRules \<and>
   (\<exists>r. analyzeText literalEngine
           [0x78, 0x21, 0x78, 0x21, 0x78, 0x21, 0x32, 0x30, 0x21, 0x32, 0x30, 0x21, 0x32, 0x30,
            0x21, 0x33, 0x21, 0x33, 0x21, 0x33] emptyRules False = Inr r \<and>
         map end_pattern (repetitiveEndings r) = [[0x33], [0x32, 0x30], [0x78]]) \<and>
   list_all (\<lambda>k. \<not> isArrayIndex k)
     (endingKeys [0x79, 0x21, 0x79, 0x21, 0x78, 0x21, 0x78, 0x21, 0x78, 0x21, 0x79]) \<and>
   (\<exists>r. analyzeText literalEngine
           [0x79, 0x21, 0x79, 0x21, 0x78, 0x21, 0x78, 0x21, 0x78, 0x21, 0x79] emptyRules False = Inr r \<and>
         map end_pattern (repetitiveEndings r) = [[0x79], [0x78]])"
proof -
  let ?t1 = "[0x78, 0x21, 0x78, 0x21, 0x78, 0x21, 0x32, 0x30, 0x21, 0x32, 0x30, 0x21, 0x32, 0x30,
            0x21, 0x33, 0x21, 0x33, 0x21, 0x33] :: jsstring"
  let ?t2 = "[0x79, 0x21, 0x79, 0x21, 0x78, 0x21, 0x78, 0x21, 0x78, 0x21, 0x79] :: jsstring"
  have h: "patternsCompile literalEngine emptyRules"
    by (simp add: patternsCompile_def emptyRules_def)
  have k1: "endingKeys ?t1 =
      [[0x78], [0x78], [0x78], [0x32, 0x30], [0x32, 0x30], [0x32, 0x30], [0x33], [0x33], [0x33]]"
    by (simp add: endingKeys_def split_def isTerminator_def trim_def isWhiteSpace_def trailing5_def)
  have k2: "endingKeys ?t2 = [[0x79], [0x79], [0x78], [0x78], [0x78], [0x79]]"
    by (simp add: endingKeys_def split_def isTerminator_def trim_def isWhiteSpace_def trailing5_def)
  have i: "isArrayIndex [0x32, 0x30]" "isArrayIndex [0x33]" "\<not> isArrayIndex [0x78]"
    "\<not> isArrayIndex [0x79]" "indexValue [0x32, 0x30] = 20" "indexValue [0x33] = 3"
    by (simp_all add: isArrayIndex_def isDigit_def indexValue_def)
  have n: "list_all (\<lambda>k. \<not> isArrayIndex k) (endingKeys ?t2)"
    unfolding k2 by (simp add: i)
  from repetitiveEndings_order [OF h, of ?t1 False]
  have 1: "\<exists>r. analyzeText literalEngine ?t1 emptyRules False = Inr r \<and>
         map end_pattern (repetitiveEndings r) = [[0x33], [0x32, 0x30], [0x78]]"
    unfolding k1 by (auto simp: i)
  from repetitiveEndings_order [OF h, of ?t2 False] n
  have 2: "\<exists>r. analyzeText literalEngine ?t2 emptyRules False = Inr r \<and>
         map end_pattern (repetitiveEndings r) = [[0x79], [0x78]]"
    unfolding k2 by auto
  from h 1 n 2 show ?thesis by blast
qed

text \<open>
  C5, as the specification has it, fails for a text of white space only: the single space
  has one match of the pattern that is a single space, and no entry is emitted.
\<close>

theorem rule_detection_counterexample:
  "[0x20] \<noteq> ([] :: jsstring) \<and>
   compiles literalEngine [0x20] \<and>
   matchCount literalEngine [0x20] [0x20] = 1 \<and>
   analyzeText literalEngine [0x20]
     \<lparr>ambiguousPhrases = [\<lparr>phrase_text = [0x20], phrase_suggestion = []\<rparr>],
      repetitivePatterns = [], mediaSpecificRules = []\<rparr> False =
     Inr \<lparr>mediaScore = 0, ambiguousPhrases_res = [], repetitiveEndings = [],
          mediaSpecificIssues = [], improvements = []\<rparr>"
proof -
  have "list_all isWhiteSpace [0x20]" by (simp add: isWhiteSpace_def)
  then have "analyzeText literalEngine [0x20]
     \<lparr>ambiguousPhrases = [\<lparr>phrase_text = [0x20], phrase_suggestion = []\<rparr>],
      repetitivePatterns = [], mediaSpecificRules = []\<rparr> False = Inr emptyResult"
    by (rule analyzeText_blank)
  then show ?thesis
    by (simp add: emptyResult_def literalEngine_compiles literalEngine_matchCount isSyntaxCharacter_def)
qed

text \<open>
  C5, amended. For every text that is neither empty nor white space only and every rule
  set whose patterns the constructor accepts: for each rule of \<open>ambiguousPhrases\<close>, and
  for each rule of \<open>mediaSpecificRules\<close>, the expression is made from the pattern with the
  flags \<open>g\<close> (global; no \<open>i\<close>, so case-sensitive) and its matches in the text are
  counted; the result has the entry of the rule, with that count, if and only if the
  count is greater than 0, and the entries are in the order of the rule list.
\<close>

theorem rule_detection:
  assumes "text \<noteq> []" and "\<not> list_all isWhiteSpace text" and "patternsCompile E mediaRules"
  shows "\<exists>r. analyzeText E text mediaRules detailed = Inr r \<and>
           ambiguousPhrases_res r =
             map (\<lambda>p. \<lparr>amb_text = phrase_text p,
                        amb_count = countMatches E [0x67] text (phrase_text p),
                        amb_suggestion = phrase_suggestion p\<rparr>)
               (filter (\<lambda>p. 0 < countMatches E [0x67] text (phrase_text p))
                  (ambiguousPhrases mediaRules)) \<and>
           mediaSpecificIssues r =
             map (\<lambda>m. \<lparr>med_pattern = rule_pattern m,
                        med_count = countMatches E [0x67] text (rule_pattern m),
                        med_description = rule_description m\<rparr>)
               (filter (\<lambda>m. 0 < countMatches E [0x67] text (rule_pattern m))
                  (mediaSpecificRules mediaRules))"
proof -
  have a: "ambiguousIssue E text =
      (\<lambda>p. \<lparr>amb_text = phrase_text p, amb_count = countMatches E [0x67] text (phrase_text p),
             amb_suggestion = phrase_suggestion p\<rparr>)"
    by (rule ext) (simp add: ambiguousIssue_def matchCount_def countMatches_def flags_g_def)
  have m: "mediaIssue E text =
      (\<lambda>m. \<lparr>med_pattern = rule_pattern m, med_count = countMatches E [0x67] text (rule_pattern m),
             med_description = rule_description m\<rparr>)"
    by (rule ext) (simp add: mediaIssue_def matchCount_def countMatches_def flags_g_def)
  have c: "matchCount E text = countMatches E [0x67] text"
    by (rule ext) (simp add: matchCount_def countMatches_def flags_g_def)
  from analyzeText_fields [OF assms(2,3), of detailed] show ?thesis
    unfolding a m c by blast
qed

theorem rule_detection_witness:
  "[0x3068, 0x3066, 0x3082, 0x826F, 0x3044, 0x3001, 0x3068, 0x3066, 0x3082, 0x60AA, 0x3044,
    0x20, 0x57, 0x65, 0x62, 0x20, 0x77, 0x65, 0x62] \<noteq> ([] :: jsstring) \<and>
   \<not> list_all isWhiteSpace
       [0x3068, 0x3066, 0x3082, 0x826F, 0x3044, 0x3001, 0x3068, 0x3066, 0x3082, 0x60AA, 0x3044,
        0x20, 0x57, 0x65, 0x62, 0x20, 0x77, 0x65, 0x62] \<and>
   patternsCompile literalEngine
     \<lparr>ambiguousPhrases =
        [\<lparr>phrase_text = [0x60AA, 0x3044], phrase_suggestion = [0x5177, 0x4F53]\<rparr>,
         \<lparr>phrase_text = [0x3068, 0x3066, 0x3082],
          phrase_suggestion = [0x5177, 0x4F53, 0x7684, 0x306A, 0x8868, 0x73FE, 0x306B]\<rparr>,
         \<lparr>phrase_text = [0x304B, 0x3082], phrase_suggestion = []\<rparr>,
         \<lparr>phrase_text = [0x77, 0x65, 0x62], phrase_suggestion = [0x57, 0x65, 0x62]\<rparr>],
      repetitivePatterns = [],
      mediaSpecificRules =
        [\<lparr>rule_pattern = [0x3001], rule_description = [0x8AAD, 0x70B9], rule_mediaType = []\<rparr>]\<rparr> \<and>
   (\<exists>r. analyzeText literalEngine
           [0x3068, 0x3066, 0x3082, 0x826F, 0x3044, 0x3001, 0x3068, 0x3066, 0x3082, 0x60AA, 0x3044,
            0x20, 0x57, 0x65, 0x62, 0x20, 0x77, 0x65, 0x62]
           \<lparr>ambiguousPhrases =
              [\<lparr>phrase_text = [0x60AA, 0x3044], phrase_suggestion = [0x5177, 0x4F53]\<rparr>,
               \<lparr>phrase_text = [0x3068, 0x3066, 0x3082],
                phrase_suggestion = [0x5177, 0x4F53, 0x7684, 0x306A, 0x8868, 0x73FE, 0x306B]\<rparr>,
               \<lparr>phrase_text = [0x304B, 0x3082], phrase_suggestion = []\<rparr>,
               \<lparr>phrase_text = [0x77, 0x65, 0x62], phrase_suggestion = [0x57, 0x65, 0x62]\<rparr>],
            repetitivePatterns = [],
            mediaSpecificRules =
              [\<lparr>rule_pattern = [0x3001], rule_description = [0x8AAD, 0x70B9], rule_mediaType = []\<rparr>]\<rparr>
           False = Inr r \<and>
         r = \<lparr>mediaScore = 80,
      ambiguousPhrases_res =
           [\<lparr>amb_text = [0x60AA, 0x3044], amb_count = 1, amb_suggestion = [0x5177, 0x4F53]\<rparr>,
            \<lparr>amb_text = [0x3068, 0x3066, 0x3082], amb_count = 2,
             amb_suggestion = [0x5177, 0x4F53, 0x7684, 0x306A, 0x8868, 0x73FE, 0x306B]\<rparr>,
            \<lparr>amb_text = [0x77, 0x65, 0x62], amb_count = 1, amb_suggestion = [0x57, 0x65, 0x62]\<rparr>],
      repetitiveEndings = [],
      mediaSpecificIssues =
           [\<lparr>med_pattern = [0x3001], med_count = 1, med_description = [0x8AAD, 0x70B9]\<rparr>],
      improvements = []\<rparr> \<and>
         ambiguousPhrases_res r =
           [\<lparr>amb_text = [0x60AA, 0x3044], amb_count = 1, amb_suggestion = [0x5177, 0x4F53]\<rparr>,
            \<lparr>amb_text = [0x3068, 0x3066, 0x3082], amb_count = 2,
             amb_suggestion = [0x5177, 0x4F53, 0x7684, 0x306A, 0x8868, 0x73FE, 0x306B]\<rparr>,
            \<lparr>amb_text = [0x77, 0x65, 0x62], amb_count = 1, amb_suggestion = [0x57, 0x65, 0x62]\<rparr>] \<and>
         mediaSpecificIssues r =
           [\<lparr>med_pattern = [0x3001], med_count = 1, med_description = [0x8AAD, 0x70B9]\<rparr>])"
proof -
  let ?text = "[0x3068, 0x3066, 0x3082, 0x826F, 0x3044, 0x3001, 0x3068, 0x3066, 0x3082, 0x60AA, 0x3044,
    0x20, 0x57, 0x65, 0x62, 0x20, 0x77, 0x65, 0x62] :: jsstring"
  let ?rules = "\<lparr>ambiguousPhrases =
        [\<lparr>phrase_text = [0x60AA, 0x3044], phrase_suggestion = [0x5177, 0x4F53]\<rparr>,
         \<lparr>phrase_text = [0x3068, 0x3066, 0x3082],
          phrase_suggestion = [0x5177, 0x4F53, 0x7684, 0x306A, 0x8868, 0x73FE, 0x306B]\<rparr>,
         \<lparr>phrase_text = [0x304B, 0x3082], phrase_suggestion = []\<rparr>,
         \<lparr>phrase_text = [0x77, 0x65, 0x62], phrase_suggestion = [0x57, 0x65, 0x62]\<rparr>],
      repetitivePatterns = [],
      mediaSpecificRules =
        [\<lparr>rule_pattern = [0x3001], rule_description = [0x8AAD, 0x70B9], rule_mediaType = []\<rparr>]\<rparr>"
  have h1: "?text \<noteq> []" by simp
  have h2: "\<not> list_all isWhiteSpace ?text" by (simp add: isWhiteSpace_def)
  have h3: "patternsCompile literalEngine ?rules"
    by (simp add: patternsCompile_def literalEngine_compiles isSyntaxCharacter_def)
  have c: "countMatches literalEngine [0x67] ?text [0x60AA, 0x3044] = 1"
    "countMatches literalEngine [0x67] ?text [0x3068, 0x3066, 0x3082] = 2"
    "countMatches literalEngine [0x67] ?text [0x304B, 0x3082] = 0"
    "countMatches literalEngine [0x67] ?text [0x77, 0x65, 0x62] = 1"
    "countMatches literalEngine [0x67] ?text [0x3001] = 1"
    by (simp_all add: literalEngine_countMatches isSyntaxCharacter_def)
  from rule_detection [OF h1 h2 h3, of False]
  obtain r where r: "analyzeText literalEngine ?text ?rules False = Inr r"
    and p: "ambiguousPhrases_res r =
           [\<lparr>amb_text = [0x60AA, 0x3044], amb_count = 1, amb_suggestion = [0x5177, 0x4F53]\<rparr>,
            \<lparr>amb_text = [0x3068, 0x3066, 0x3082], amb_count = 2,
             amb_suggestion = [0x5177, 0x4F53, 0x7684, 0x306A, 0x8868, 0x73FE, 0x306B]\<rparr>,
            \<lparr>amb_text = [0x77, 0x65, 0x62], amb_count = 1, amb_suggestion = [0x57, 0x65, 0x62]\<rparr>]"
      "mediaSpecificIssues r =
           [\<lparr>med_pattern = [0x3001], med_count = 1, med_description = [0x8AAD, 0x70B9]\<rparr>]"
    by (auto simp: c)
  txt \<open>The run of the model on this input.\<close>
  have run: "analyzeText literalEngine
           [0x3068, 0x3066, 0x3082, 0x826F, 0x3044, 0x3001, 0x3068, 0x3066, 0x3082, 0x60AA, 0x3044,
            0x20, 0x57, 0x65, 0x62, 0x20, 0x77, 0x65, 0x62]
           \<lparr>ambiguousPhrases =
              [\<lparr>phrase_text = [0x60AA, 0x3044], phrase_suggestion = [0x5177, 0x4F53]\<rparr>,
               \<lparr>phrase_text = [0x3068, 0x3066, 0x3082],
                phrase_suggestion = [0x5177, 0x4F53, 0x7684, 0x306A, 0x8868, 0x73FE, 0x306B]\<rparr>,
               \<lparr>phrase_text = [0x304B, 0x3082], phrase_suggestion = []\<rparr>,
               \<lparr>phrase_text = [0x77, 0x65, 0x62], phrase_suggestion = [0x57, 0x65, 0x62]\<rparr>],
            repetitivePatterns = [],
            mediaSpecificRules =
              [\<lparr>rule_pattern = [0x3001], rule_description = [0x8AAD, 0x70B9], rule_mediaType = []\<rparr>]\<rparr>
           False =
    Inr \<lparr>mediaScore = 80,
      ambiguousPhrases_res =
           [\<lparr>amb_text = [0x60AA, 0x3044], amb_count = 1, amb_suggestion = [0x5177, 0x4F53]\<rparr>,
            \<lparr>amb_text = [0x3068, 0x3066, 0x3082], amb_count = 2,
             amb_suggestion = [0x5177, 0x4F53, 0x7684, 0x306A, 0x8868, 0x73FE, 0x306B]\<rparr>,
            \<lparr>amb_text = [0x77, 0x65, 0x62], amb_count = 1, amb_suggestion = [0x57, 0x65, 0x62]\<rparr>],
      repetitiveEndings = [],
      mediaSpecificIssues =
           [\<lparr>med_pattern = [0x3001], med_count = 1, med_description = [0x8AAD, 0x70B9]\<rparr>],
      improvements = []\<rparr>"
  proof -
    let ?text = "[0x3068, 0x3066, 0x3082, 0x826F, 0x3044, 0x3001, 0x3068, 0x3066, 0x3082, 0x60AA, 0x3044,
              0x20, 0x57, 0x65, 0x62, 0x20, 0x77, 0x65, 0x62] :: jsstring"
    have g: "?text \<noteq> []" "trim ?text \<noteq> []"
      by (simp_all add: trim_def isWhiteSpace_def)
    have s: "split isTerminator ?text = [?text]"
      by (simp add: split_def isTerminator_def)
    have t: "sentences_forEach [?text] [] = [([0x62, 0x20, 0x77, 0x65, 0x62], 1)]"
      by (simp add: trim_def isWhiteSpace_def slice_def or_zero_def Let_def)
    show ?thesis
      unfolding analyzeText_def analyzeText_try_def Let_def s t
      using g
      by (simp add: emptyResult_def literalEngine_def isSyntaxCharacter_def flags_g_def
          Object_entries_def isArrayIndex_def isDigit_def)
  qed
  from r run have "r = \<lparr>mediaScore = 80,
      ambiguousPhrases_res =
           [\<lparr>amb_text = [0x60AA, 0x3044], amb_count = 1, amb_suggestion = [0x5177, 0x4F53]\<rparr>,
            \<lparr>amb_text = [0x3068, 0x3066, 0x3082], amb_count = 2,
             amb_suggestion = [0x5177, 0x4F53, 0x7684, 0x306A, 0x8868, 0x73FE, 0x306B]\<rparr>,
            \<lparr>amb_text = [0x77, 0x65, 0x62], amb_count = 1, amb_suggestion = [0x57, 0x65, 0x62]\<rparr>],
      repetitiveEndings = [],
      mediaSpecificIssues =
           [\<lparr>med_pattern = [0x3001], med_count = 1, med_description = [0x8AAD, 0x70B9]\<rparr>],
      improvements = []\<rparr>"
    by simp
  with h1 h2 h3 r p show ?thesis by blast
qed

text \<open>
  C6, as the specification has it, fails for a text of white space only: 51 spaces are one
  segment of 51 code units, and with the detailed flag no advisory is appended.
\<close>

theorem detailed_gating_counterexample:
  "replicate 51 0x20 \<noteq> ([] :: jsstring) \<and>
   (of_nat (length (replicate 51 (0x20 :: code_unit))) :: rat) /
     of_nat (length (split isTerminator (replicate 51 0x20))) = 51 \<and>
   analyzeText literalEngine (replicate 51 0x20) emptyRules True =
     Inr \<lparr>mediaScore = 0, ambiguousPhrases_res = [], repetitiveEndings = [],
          mediaSpecificIssues = [], improvements = []\<rparr>"
proof -
  have w: "list_all isWhiteSpace (replicate 51 0x20)"
    by (simp add: list_all_iff isWhiteSpace_def)
  have "\<forall>c \<in> set (replicate 51 (0x20 :: code_unit)). \<not> isTerminator c"
    by (simp add: isTerminator_def)
  then have s: "split isTerminator (replicate 51 0x20) = [replicate 51 0x20]"
    by (rule split_no_terminator)
  from analyzeText_blank [OF w, of literalEngine emptyRules True] show ?thesis
    by (simp add: s emptyResult_def)
qed

text \<open>
  C6, amended. For every text that is neither empty nor white space only and every rule
  set whose patterns the constructor accepts: without the detailed flag no length
  advisory and no complexity advisory is appended, whatever the thresholds; with it, a
  length advisory is appended if and only if \<open>text.length\<close> divided by the number of
  segments (one more than the number of terminators, so empty segments count) exceeds
  50, and that advisory is the text of the source with the quotient, rounded to the
  nearest integer and written in decimal digits, between its two fixed parts.
\<close>

theorem detailed_gating:
  assumes "text \<noteq> []" and "\<not> list_all isWhiteSpace text" and "patternsCompile E mediaRules"
  shows "\<exists>r. analyzeText E text mediaRules detailed = Inr r \<and>
           (let average = (of_nat (length text) :: rat) /
                            of_nat (Suc (length (filter (\<lambda>c. c \<in> set terminators) text)));
                lengthText = (\<lambda>d. [0x6587, 0x304C, 0x5E73, 0x5747] @ d @
                  [0x6587, 0x5B57, 0x3068, 0x9577, 0x3081, 0x3067, 0x3059, 0x3002, 0x77ED, 0x304F,
                   0x533A, 0x5207, 0x308B, 0x3053, 0x3068, 0x3092, 0x691C, 0x8A0E, 0x3057, 0x3066,
                   0x304F, 0x3060, 0x3055, 0x3044, 0x3002]);
                complexityText =
                [0x6587, 0x7AE0, 0x304C, 0x8907, 0x96D1, 0x3059, 0x304E, 0x308B, 0x53EF, 0x80FD, 0x6027,
                 0x304C, 0x3042, 0x308A, 0x307E, 0x3059, 0x3002, 0x77ED, 0x3044, 0x6587, 0x306B,
                 0x5206, 0x3051, 0x308B, 0x3053, 0x3068, 0x3092, 0x691C, 0x8A0E, 0x3057, 0x3066,
                 0x304F, 0x3060, 0x3055, 0x3044, 0x3002]
            in (\<not> detailed \<longrightarrow>
                  (\<forall>d. lengthText d \<notin> set (improvements r)) \<and>
                  complexityText \<notin> set (improvements r)) \<and>
               (detailed \<longrightarrow>
                  ((\<exists>d. lengthText d \<in> set (improvements r)) \<longleftrightarrow> 50 < average) \<and>
                  (50 < average \<longrightarrow>
                     lengthText (decimal (nat \<lfloor>average + 1 / 2\<rfloor>)) \<in> set (improvements r)))) \<and>
           (\<forall>n. list_all isDigit (decimal n) \<and> indexValue (decimal n) = n)"
proof -
  have d: "\<forall>n. list_all isDigit (decimal n) \<and> indexValue (decimal n) = n"
    by (simp add: decimal_digits decimal_value)
  from analyzeText_fields [OF assms(2,3), of detailed] obtain r
    where r: "analyzeText E text mediaRules detailed = Inr r"
      and i: "improvements r =
       (if mediaScore r < 70 then [baselineAdvisory] else []) @
       (if detailed then
          (if averageSentenceLength text (split isTerminator text) > 50
           then [lengthAdvisory (nat (Math_round (averageSentenceLength text (split isTerminator text))))]
           else []) @
          (if readabilityScore text (split isTerminator text) < 60 then [complexityAdvisory] else [])
        else [])"
    by blast
  have a: "averageSentenceLength text (split isTerminator text) =
      of_nat (length text) / of_nat (Suc (length (filter (\<lambda>c. c \<in> set terminators) text)))"
    by (simp add: averageSentenceLength_def split_def length_split_acc
        isTerminator_terminators)
  have "let average = (of_nat (length text) :: rat) /
                            of_nat (Suc (length (filter (\<lambda>c. c \<in> set terminators) text)));
                lengthText = (\<lambda>d. [0x6587, 0x304C, 0x5E73, 0x5747] @ d @
                  [0x6587, 0x5B57, 0x3068, 0x9577, 0x3081, 0x3067, 0x3059, 0x3002, 0x77ED, 0x304F,
                   0x533A, 0x5207, 0x308B, 0x3053, 0x3068, 0x3092, 0x691C, 0x8A0E, 0x3057, 0x3066,
                   0x304F, 0x3060, 0x3055, 0x3044, 0x3002]);
                complexityText =
                [0x6587, 0x7AE0, 0x304C, 0x8907, 0x96D1, 0x3059, 0x304E, 0x308B, 0x53EF, 0x80FD, 0x6027,
                 0x304C, 0x3042, 0x308A, 0x307E, 0x3059, 0x3002, 0x77ED, 0x3044, 0x6587, 0x306B,
                 0x5206, 0x3051, 0x308B, 0x3053, 0x3068, 0x3092, 0x691C, 0x8A0E, 0x3057, 0x3066,
                 0x304F, 0x3060, 0x3055, 0x3044, 0x3002]
            in (\<not> detailed \<longrightarrow>
                  (\<forall>d. lengthText d \<notin> set (improvements r)) \<and>
                  complexityText \<notin> set (improvements r)) \<and>
               (detailed \<longrightarrow>
                  ((\<exists>d. lengthText d \<in> set (improvements r)) \<longleftrightarrow> 50 < average) \<and>
                  (50 < average \<longrightarrow>
                     lengthText (decimal (nat \<lfloor>average + 1 / 2\<rfloor>)) \<in> set (improvements r)))"
    unfolding Let_def i a
    by (auto simp: lengthAdvisory_def complexityAdvisory_def baselineAdvisory_def Math_round_def)
  with r d show ?thesis by blast
qed

theorem detailed_gating_witness:
  "replicate 102 0x61 @ [0x3002] \<noteq> ([] :: jsstring) \<and>
   \<not> list_all isWhiteSpace (replicate 102 0x61 @ [0x3002]) \<and>
   patternsCompile literalEngine emptyRules \<and>
   length (filter (\<lambda>c. c \<in> set terminators) (replicate 102 0x61 @ [0x3002])) = 1 \<and>
   (\<exists>r. analyzeText literalEngine (replicate 102 0x61 @ [0x3002]) emptyRules True = Inr r \<and>
         r = \<lparr>mediaScore = 100, ambiguousPhrases_res = [], repetitiveEndings = [],
          mediaSpecificIssues = [],
          improvements =
            [[0x6587, 0x304C, 0x5E73, 0x5747, 0x35, 0x32, 0x6587, 0x5B57, 0x3068, 0x9577, 0x3081, 0x3067,
              0x3059, 0x3002, 0x77ED, 0x304F, 0x533A, 0x5207, 0x308B, 0x3053, 0x3068, 0x3092, 0x691C,
              0x8A0E, 0x3057, 0x3066, 0x304F, 0x3060, 0x3055, 0x3044, 0x3002]]\<rparr> \<and>
         [0x6587, 0x304C, 0x5E73, 0x5747, 0x35, 0x32, 0x6587, 0x5B57, 0x3068, 0x9577, 0x3081, 0x3067,
            0x3059, 0x3002, 0x77ED, 0x304F, 0x533A, 0x5207, 0x308B, 0x3053, 0x3068, 0x3092, 0x691C,
            0x8A0E, 0x3057, 0x3066, 0x304F, 0x3060, 0x3055, 0x3044, 0x3002] \<in> set (improvements r)) \<and>
   (\<exists>r. analyzeText literalEngine (replicate 102 0x61 @ [0x3002]) emptyRules False = Inr r \<and>
         [0x6587, 0x304C, 0x5E73, 0x5747, 0x35, 0x32, 0x6587, 0x5B57, 0x3068, 0x9577, 0x3081, 0x3067,
            0x3059, 0x3002, 0x77ED, 0x304F, 0x533A, 0x5207, 0x308B, 0x3053, 0x3068, 0x3092, 0x691C,
            0x8A0E, 0x3057, 0x3066, 0x304F, 0x3060, 0x3055, 0x3044, 0x3002] \<notin> set (improvements r) \<and>
         [0x6587, 0x7AE0, 0x304C, 0x8907, 0x96D1, 0x3059, 0x304E, 0x308B, 0x53EF, 0x80FD, 0x6027,
                 0x304C, 0x3042, 0x308A, 0x307E, 0x3059, 0x3002, 0x77ED, 0x3044, 0x6587, 0x306B,
                 0x5206, 0x3051, 0x308B, 0x3053, 0x3068, 0x3092, 0x691C, 0x8A0E, 0x3057, 0x3066,
                 0x304F, 0x3060, 0x3055, 0x3044, 0x3002] \<notin> set (improvements r))"
proof -
  let ?text = "replicate 102 0x61 @ [0x3002] :: jsstring"
  have h1: "?text \<noteq> []" by simp
  have h2: "\<not> list_all isWhiteSpace ?text" by (simp add: isWhiteSpace_def)
  have h3: "patternsCompile literalEngine emptyRules"
    by (simp add: patternsCompile_def emptyRules_def)
  have t: "length (filter (\<lambda>c. c \<in> set terminators) ?text) = 1"
    by (simp add: terminators_def)
  have a: "(of_nat (length ?text) :: rat) /
             of_nat (Suc (length (filter (\<lambda>c. c \<in> set terminators) ?text))) = 103 / 2"
    unfolding t by simp
  have m: "decimal (nat \<lfloor>(103 / 2 :: rat) + 1 / 2\<rfloor>) = [0x35, 0x32]"
  proof -
    have "nat \<lfloor>(103 / 2 :: rat) + 1 / 2\<rfloor> = 52" by simp
    then show ?thesis by (simp add: decimal.simps)
  qed
  from detailed_gating [OF h1 h2 h3, of True]
  have "\<exists>r. analyzeText literalEngine ?text emptyRules True = Inr r \<and>
         [0x6587, 0x304C, 0x5E73, 0x5747, 0x35, 0x32, 0x6587, 0x5B57, 0x3068, 0x9577, 0x3081, 0x3067,
            0x3059, 0x3002, 0x77ED, 0x304F, 0x533A, 0x5207, 0x308B, 0x3053, 0x3068, 0x3092, 0x691C,
            0x8A0E, 0x3057, 0x3066, 0x304F, 0x3060, 0x3055, 0x3044, 0x3002] \<in> set (improvements r)"
    unfolding Let_def a m by auto
  then obtain r where r: "analyzeText literalEngine ?text emptyRules True = Inr r"
    and p: "[0x6587, 0x304C, 0x5E73, 0x5747, 0x35, 0x32, 0x6587, 0x5B57, 0x3068, 0x9577, 0x3081, 0x3067,
            0x3059, 0x3002, 0x77ED, 0x304F, 0x533A, 0x5207, 0x308B, 0x3053, 0x3068, 0x3092, 0x691C,
            0x8A0E, 0x3057, 0x3066, 0x304F, 0x3060, 0x3055, 0x3044, 0x3002] \<in> set (improvements r)"
    by blast
  txt \<open>The run of the model on this input.\<close>
  have run: "analyzeText literalEngine ?text emptyRules True =
     Inr \<lparr>mediaScore = 100, ambiguousPhrases_res = [], repetitiveEndings = [],
          mediaSpecificIssues = [],
          improvements =
            [[0x6587, 0x304C, 0x5E73, 0x5747, 0x35, 0x32, 0x6587, 0x5B57, 0x3068, 0x9577, 0x3081, 0x3067,
              0x3059, 0x3002, 0x77ED, 0x304F, 0x533A, 0x5207, 0x308B, 0x3053, 0x3068, 0x3092, 0x691C,
              0x8A0E, 0x3057, 0x3066, 0x304F, 0x3060, 0x3055, 0x3044, 0x3002]]\<rparr>"
  proof -
    let ?text = "replicate 102 0x61 @ [0x3002] :: jsstring"
    have g: "?text \<noteq> []" "trim ?text \<noteq> []"
      by (simp_all add: trim_def isWhiteSpace_def isTerminator_def)
    have "\<forall>c \<in> set (replicate 102 (0x61 :: code_unit)). \<not> isTerminator c"
      by (simp add: isTerminator_def)
    moreover have "isTerminator 0x3002" by (simp add: isTerminator_def)
    ultimately have s: "split isTerminator ?text = [replicate 102 0x61, []]"
      by (simp add: split_def split_acc_prefix)
    have t: "sentences_forEach [replicate 102 0x61, []] [] = [(replicate 5 0x61, 1)]"
      by (simp add: trim_def isWhiteSpace_def slice_def or_zero_def Let_def)
    have e: "Object_entries [(replicate 5 0x61, 1)] = [(replicate 5 0x61, 1)]"
      by (simp add: Object_entries_def isArrayIndex_def isDigit_def)
    have r: "nat (Math_round (103 / 2)) = 52" by (simp add: Math_round_def)
    show ?thesis
      unfolding analyzeText_def analyzeText_try_def Let_def s t e
      using g
      by (simp add: emptyRules_def emptyResult_def detailedAnalysis_block_def
          averageSentenceLength_def readabilityScore_def removeWhiteSpace_def isWhiteSpace_def
          lengthAdvisory_def r decimal.simps)
  qed
  from r run have "r = \<lparr>mediaScore = 100, ambiguousPhrases_res = [], repetitiveEndings = [],
          mediaSpecificIssues = [],
          improvements =
            [[0x6587, 0x304C, 0x5E73, 0x5747, 0x35, 0x32, 0x6587, 0x5B57, 0x3068, 0x9577, 0x3081, 0x3067,
              0x3059, 0x3002, 0x77ED, 0x304F, 0x533A, 0x5207, 0x308B, 0x3053, 0x3068, 0x3092, 0x691C,
              0x8A0E, 0x3057, 0x3066, 0x304F, 0x3060, 0x3055, 0x3044, 0x3002]]\<rparr>"
    by simp
  with r p have 1: "\<exists>r. analyzeText literalEngine ?text emptyRules True = Inr r \<and>
         r = \<lparr>mediaScore = 100, ambiguousPhrases_res = [], repetitiveEndings = [],
          mediaSpecificIssues = [],
          improvements =
            [[0x6587, 0x304C, 0x5E73, 0x5747, 0x35, 0x32, 0x6587, 0x5B57, 0x3068, 0x9577, 0x3081, 0x3067,
              0x3059, 0x3002, 0x77ED, 0x304F, 0x533A, 0x5207, 0x308B, 0x3053, 0x3068, 0x3092, 0x691C,
              0x8A0E, 0x3057, 0x3066, 0x304F, 0x3060, 0x3055, 0x3044, 0x3002]]\<rparr> \<and>
         [0x6587, 0x304C, 0x5E73, 0x5747, 0x35, 0x32, 0x6587, 0x5B57, 0x3068, 0x9577, 0x3081, 0x3067,
            0x3059, 0x3002, 0x77ED, 0x304F, 0x533A, 0x5207, 0x308B, 0x3053, 0x3068, 0x3092, 0x691C,
            0x8A0E, 0x3057, 0x3066, 0x304F, 0x3060, 0x3055, 0x3044, 0x3002] \<in> set (improvements r)"
    by blast
  from detailed_gating [OF h1 h2 h3, of False]
  have 2: "\<exists>r. analyzeText literalEngine ?text emptyRules False = Inr r \<and>
         [0x6587, 0x304C, 0x5E73, 0x5747, 0x35, 0x32, 0x6587, 0x5B57, 0x3068, 0x9577, 0x3081, 0x3067,
            0x3059, 0x3002, 0x77ED, 0x304F, 0x533A, 0x5207, 0x308B, 0x3053, 0x3068, 0x3092, 0x691C,
            0x8A0E, 0x3057, 0x3066, 0x304F, 0x3060, 0x3055, 0x3044, 0x3002] \<notin> set (improvements r) \<and>
         [0x6587, 0x7AE0, 0x304C, 0x8907, 0x96D1, 0x3059, 0x304E, 0x308B, 0x53EF, 0x80FD, 0x6027,
                 0x304C, 0x3042, 0x308A, 0x307E, 0x3059, 0x3002, 0x77ED, 0x3044, 0x6587, 0x306B,
                 0x5206, 0x3051, 0x308B, 0x3053, 0x3068, 0x3092, 0x691C, 0x8A0E, 0x3057, 0x3066,
                 0x304F, 0x3060, 0x3055, 0x3044, 0x3002] \<notin> set (improvements r)"
    unfolding Let_def
    by (metis append_Cons append_Nil)
  from h1 h2 h3 t 1 2 show ?thesis by simp
qed

text \<open>
  C7, as the specification has it, fails for a rule set with a pattern that the
  constructor rejects: for 401 letters the score is \<open>100 - 401 / 1 / 10\<close>, below 60, and
  with the single rule \<open>(\<close> no advisory is appended, since the analysis throws.
\<close>

theorem complexity_advisory_counterexample:
  "replicate 401 0x61 \<noteq> ([] :: jsstring) \<and>
   100 - ((of_nat (length (filter (\<lambda>c. \<not> isWhiteSpace c) (replicate 401 0x61))) :: rat) /
            of_nat (Suc (length (filter (\<lambda>c. c \<in> set terminators) (replicate 401 0x61)))) / 10)
     < 60 \<and>
   analyzeText literalEngine (replicate 401 0x61)
     \<lparr>ambiguousPhrases = [\<lparr>phrase_text = [0x28], phrase_suggestion = []\<rparr>],
      repetitivePatterns = [], mediaSpecificRules = []\<rparr> True =
     Inl ([0x30C6, 0x30AD, 0x30B9, 0x30C8, 0x5206, 0x6790, 0x4E2D, 0x306B, 0x30A8, 0x30E9,
           0x30FC, 0x304C, 0x767A, 0x751F, 0x3057, 0x307E, 0x3057, 0x305F, 0x3A, 0x20] @
          ascii ''Invalid regular expression: /(/g: Unterminated group'')"
proof -
  have b: "\<not> list_all isWhiteSpace (replicate 401 0x61)"
    by (simp add: list_all_iff isWhiteSpace_def)
  have "analyzeText literalEngine (replicate 401 0x61)
     \<lparr>ambiguousPhrases = [\<lparr>phrase_text = [0x28], phrase_suggestion = []\<rparr>],
      repetitivePatterns = [], mediaSpecificRules = []\<rparr> True =
     Inl (analysisErrorMessage (ascii ''Invalid regular expression: /(/g: Unterminated group''))"
    by (rule analyzeText_first_rule_throws
          [OF b, where phrase = "\<lparr>phrase_text = [0x28], phrase_suggestion = []\<rparr>" and rest = "[]"])
      (simp_all add: literalEngine_unterminated)
  then show ?thesis
    by (simp add: analysisErrorMessage_def isWhiteSpace_def terminators_def)
qed

text \<open>
  C7, amended. For every text and every rule set whose patterns the constructor accepts,
  with the detailed flag: with \<open>characterCount\<close> the number of code units of the text that
  are not white space and \<open>sentenceCount\<close> the number of segments (one more than the
  number of terminators), the complexity advisory of the source is appended if and only
  if \<open>100 - (characterCount / sentenceCount / 10) < 60\<close>.
\<close>

theorem complexity_advisory:
  assumes "patternsCompile E mediaRules"
  shows "\<exists>r. analyzeText E text mediaRules True = Inr r \<and>
           ([0x6587, 0x7AE0, 0x304C, 0x8907, 0x96D1, 0x3059, 0x304E, 0x308B, 0x53EF, 0x80FD, 0x6027,
                 0x304C, 0x3042, 0x308A, 0x307E, 0x3059, 0x3002, 0x77ED, 0x3044, 0x6587, 0x306B,
                 0x5206, 0x3051, 0x308B, 0x3053, 0x3068, 0x3092, 0x691C, 0x8A0E, 0x3057, 0x3066,
                 0x304F, 0x3060, 0x3055, 0x3044, 0x3002] \<in> set (improvements r) \<longleftrightarrow>
              100 - ((of_nat (length (filter (\<lambda>c. \<not> isWhiteSpace c) text)) :: rat) /
                       of_nat (Suc (length (filter (\<lambda>c. c \<in> set terminators) text))) / 10) < 60)"
proof (cases "list_all isWhiteSpace text")
  case True
  then show ?thesis
    by (simp add: analyzeText_blank emptyResult_def removeWhiteSpace_blank)
next
  case False
  from analyzeText_fields [OF False assms, of True] obtain r
    where r: "analyzeText E text mediaRules True = Inr r"
      and i: "improvements r =
       (if mediaScore r < 70 then [baselineAdvisory] else []) @
       (if True then
          (if averageSentenceLength text (split isTerminator text) > 50
           then [lengthAdvisory (nat (Math_round (averageSentenceLength text (split isTerminator text))))]
           else []) @
          (if readabilityScore text (split isTerminator text) < 60 then [complexityAdvisory] else [])
        else [])"
    by blast
  have s: "readabilityScore text (split isTerminator text) =
      100 - ((of_nat (length (filter (\<lambda>c. \<not> isWhiteSpace c) text)) :: rat) /
               of_nat (Suc (length (filter (\<lambda>c. c \<in> set terminators) text))) / 10)"
    by (simp add: readabilityScore_def removeWhiteSpace_def split_def length_split_acc
        isTerminator_terminators)
  have "[0x6587, 0x7AE0, 0x304C, 0x8907, 0x96D1, 0x3059, 0x304E, 0x308B, 0x53EF, 0x80FD, 0x6027,
                 0x304C, 0x3042, 0x308A, 0x307E, 0x3059, 0x3002, 0x77ED, 0x3044, 0x6587, 0x306B,
                 0x5206, 0x3051, 0x308B, 0x3053, 0x3068, 0x3092, 0x691C, 0x8A0E, 0x3057, 0x3066,
                 0x304F, 0x3060, 0x3055, 0x3044, 0x3002] \<in> set (improvements r) \<longleftrightarrow>
              100 - ((of_nat (length (filter (\<lambda>c. \<not> isWhiteSpace c) text)) :: rat) /
                       of_nat (Suc (length (filter (\<lambda>c. c \<in> set terminators) text))) / 10) < 60"
    unfolding i s
    by (auto simp: lengthAdvisory_def complexityAdvisory_def baselineAdvisory_def)
  with r show ?thesis by blast
qed

theorem complexity_advisory_witness:
  "patternsCompile literalEngine emptyRules \<and>
   (\<exists>r. analyzeText literalEngine
           (replicate 400 0x61 @ [0x3002, 0x20] @ replicate 400 0x61) emptyRules True = Inr r \<and>
         r = \<lparr>mediaScore = 100, ambiguousPhrases_res = [], repetitiveEndings = [],
          mediaSpecificIssues = [],
          improvements =
            [[0x6587, 0x304C, 0x5E73, 0x5747, 0x34, 0x30, 0x31, 0x6587, 0x5B57, 0x3068, 0x9577, 0x3081,
              0x3067, 0x3059, 0x3002, 0x77ED, 0x304F, 0x533A, 0x5207, 0x308B, 0x3053, 0x3068, 0x3092,
              0x691C, 0x8A0E, 0x3057, 0x3066, 0x304F, 0x3060, 0x3055, 0x3044, 0x3002],
             [0x6587, 0x7AE0, 0x304C, 0x8907, 0x96D1, 0x3059, 0x304E, 0x308B, 0x53EF, 0x80FD, 0x6027,
              0x304C, 0x3042, 0x308A, 0x307E, 0x3059, 0x3002, 0x77ED, 0x3044, 0x6587, 0x306B,
              0x5206, 0x3051, 0x308B, 0x3053, 0x3068, 0x3092, 0x691C, 0x8A0E, 0x3057, 0x3066,
              0x304F, 0x3060, 0x3055, 0x3044, 0x3002]]\<rparr> \<and>
         [0x6587, 0x7AE0, 0x304C, 0x8907, 0x96D1, 0x3059, 0x304E, 0x308B, 0x53EF, 0x80FD, 0x6027,
                 0x304C, 0x3042, 0x308A, 0x307E, 0x3059, 0x3002, 0x77ED, 0x3044, 0x6587, 0x306B,
                 0x5206, 0x3051, 0x308B, 0x3053, 0x3068, 0x3092, 0x691C, 0x8A0E, 0x3057, 0x3066,
                 0x304F, 0x3060, 0x3055, 0x3044, 0x3002] \<in> set (improvements r)) \<and>
   (\<exists>r. analyzeText literalEngine
           (replicate 400 0x61 @ [0x3002, 0x20] @ replicate 399 0x61) emptyRules True = Inr r \<and>
         r = \<lparr>mediaScore = 100, ambiguousPhrases_res = [], repetitiveEndings = [],
          mediaSpecificIssues = [],
          improvements =
            [[0x6587, 0x304C, 0x5E73, 0x5747, 0x34, 0x30, 0x31, 0x6587, 0x5B57, 0x3068, 0x9577, 0x3081,
              0x3067, 0x3059, 0x3002, 0x77ED, 0x304F, 0x533A, 0x5207, 0x308B, 0x3053, 0x3068, 0x3092,
              0x691C, 0x8A0E, 0x3057, 0x3066, 0x304F, 0x3060, 0x3055, 0x3044, 0x3002]]\<rparr> \<and>
         [0x6587, 0x7AE0, 0x304C, 0x8907, 0x96D1, 0x3059, 0x304E, 0x308B, 0x53EF, 0x80FD, 0x6027,
                 0x304C, 0x3042, 0x308A, 0x307E, 0x3059, 0x3002, 0x77ED, 0x3044, 0x6587, 0x306B,
                 0x5206, 0x3051, 0x308B, 0x3053, 0x3068, 0x3092, 0x691C, 0x8A0E, 0x3057, 0x3066,
                 0x304F, 0x3060, 0x3055, 0x3044, 0x3002] \<notin> set (improvements r))"
proof -
  have h: "patternsCompile literalEngine emptyRules"
    by (simp add: patternsCompile_def emptyRules_def)
  have w: "length (filter (\<lambda>c. \<not> isWhiteSpace c)
             (replicate 400 (0x61 :: code_unit) @ [0x3002, 0x20] @ replicate n 0x61)) = 401 + n" for n
    by (simp add: isWhiteSpace_def)
  have t: "length (filter (\<lambda>c. c \<in> set terminators)
             (replicate 400 (0x61 :: code_unit) @ [0x3002, 0x20] @ replicate n 0x61)) = 1" for n
    by (simp add: terminators_def)
  from complexity_advisory [OF h, of "replicate 400 0x61 @ [0x3002, 0x20] @ replicate 400 0x61"]
  have "\<exists>r. analyzeText literalEngine
           (replicate 400 0x61 @ [0x3002, 0x20] @ replicate 400 0x61) emptyRules True = Inr r \<and>
         [0x6587, 0x7AE0, 0x304C, 0x8907, 0x96D1, 0x3059, 0x304E, 0x308B, 0x53EF, 0x80FD, 0x6027,
                 0x304C, 0x3042, 0x308A, 0x307E, 0x3059, 0x3002, 0x77ED, 0x3044, 0x6587, 0x306B,
                 0x5206, 0x3051, 0x308B, 0x3053, 0x3068, 0x3092, 0x691C, 0x8A0E, 0x3057, 0x3066,
                 0x304F, 0x3060, 0x3055, 0x3044, 0x3002] \<in> set (improvements r)"
    unfolding w t by simp
  then obtain r where r: "analyzeText literalEngine
           (replicate 400 0x61 @ [0x3002, 0x20] @ replicate 400 0x61) emptyRules True = Inr r"
    and p: "[0x6587, 0x7AE0, 0x304C, 0x8907, 0x96D1, 0x3059, 0x304E, 0x308B, 0x53EF, 0x80FD, 0x6027,
                 0x304C, 0x3042, 0x308A, 0x307E, 0x3059, 0x3002, 0x77ED, 0x3044, 0x6587, 0x306B,
                 0x5206, 0x3051, 0x308B, 0x3053, 0x3068, 0x3092, 0x691C, 0x8A0E, 0x3057, 0x3066,
                 0x304F, 0x3060, 0x3055, 0x3044, 0x3002] \<in> set (improvements r)"
    by blast
  have run: "analyzeText literalEngine (replicate 400 0x61 @ [0x3002, 0x20] @ replicate 400 0x61) emptyRules True =
     Inr \<lparr>mediaScore = 100, ambiguousPhrases_res = [], repetitiveEndings = [],
          mediaSpecificIssues = [],
          improvements =
            [[0x6587, 0x304C, 0x5E73, 0x5747, 0x34, 0x30, 0x31, 0x6587, 0x5B57, 0x3068, 0x9577, 0x3081,
              0x3067, 0x3059, 0x3002, 0x77ED, 0x304F, 0x533A, 0x5207, 0x308B, 0x3053, 0x3068, 0x3092,
              0x691C, 0x8A0E, 0x3057, 0x3066, 0x304F, 0x3060, 0x3055, 0x3044, 0x3002],
             [0x6587, 0x7AE0, 0x304C, 0x8907, 0x96D1, 0x3059, 0x304E, 0x308B, 0x53EF, 0x80FD, 0x6027,
              0x304C, 0x3042, 0x308A, 0x307E, 0x3059, 0x3002, 0x77ED, 0x3044, 0x6587, 0x306B,
              0x5206, 0x3051, 0x308B, 0x3053, 0x3068, 0x3092, 0x691C, 0x8A0E, 0x3057, 0x3066,
              0x304F, 0x3060, 0x3055, 0x3044, 0x3002]]\<rparr>"
  proof -
    let ?text = "replicate 400 0x61 @ [0x3002, 0x20] @ replicate 400 0x61 :: jsstring"
    have g: "?text \<noteq> []" "trim ?text \<noteq> []"
      by (simp_all add: trim_def isWhiteSpace_def)
    have a: "\<not> isTerminator 0x61" "\<not> isTerminator 0x20" "isTerminator 0x3002"
      by (simp_all add: isTerminator_def)
    have s2: "split_acc isTerminator [] (0x20 # replicate 400 0x61) = [0x20 # replicate 400 0x61]"
      by (subst split_acc_no_sep) (simp_all add: a)
    have "split_acc isTerminator [] (replicate 400 0x61 @ 0x3002 # (0x20 # replicate 400 0x61)) =
        (rev [] @ replicate 400 0x61) # split_acc isTerminator [] (0x20 # replicate 400 0x61)"
      by (rule split_acc_prefix) (simp_all add: a)
    then have s: "split isTerminator ?text = [replicate 400 0x61, 0x20 # replicate 400 0x61]"
      unfolding s2 by (simp add: split_def)
    have t: "sentences_forEach [replicate 400 0x61, 0x20 # replicate 400 0x61] [] =
        [(replicate 5 0x61, 2)]"
      by (simp add: trim_def isWhiteSpace_def slice_def or_zero_def Let_def)
    have e: "Object_entries [(replicate 5 0x61, 2)] = [(replicate 5 0x61, 2)]"
      by (simp add: Object_entries_def isArrayIndex_def isDigit_def)
    have "Math_round 401 = 401" unfolding Math_round_def by (rule floor_unique) simp_all
    then have r: "nat (Math_round 401) = 401" by simp
    show ?thesis
      unfolding analyzeText_def analyzeText_try_def Let_def s t e
      using g
      by (simp add: emptyRules_def emptyResult_def detailedAnalysis_block_def
          averageSentenceLength_def readabilityScore_def removeWhiteSpace_def isWhiteSpace_def
          lengthAdvisory_def complexityAdvisory_def r decimal.simps)
  qed
  from r run have "r = \<lparr>mediaScore = 100, ambiguousPhrases_res = [], repetitiveEndings = [],
          mediaSpecificIssues = [],
          improvements =
            [[0x6587, 0x304C, 0x5E73, 0x5747, 0x34, 0x30, 0x31, 0x6587, 0x5B57, 0x3068, 0x9577, 0x3081,
              0x3067, 0x3059, 0x3002, 0x77ED, 0x304F, 0x533A, 0x5207, 0x308B, 0x3053, 0x3068, 0x3092,
              0x691C, 0x8A0E, 0x3057, 0x3066, 0x304F, 0x3060, 0x3055, 0x3044, 0x3002],
             [0x6587, 0x7AE0, 0x304C, 0x8907, 0x96D1, 0x3059, 0x304E, 0x308B, 0x53EF, 0x80FD, 0x6027,
              0x304C, 0x3042, 0x308A, 0x307E, 0x3059, 0x3002, 0x77ED, 0x3044, 0x6587, 0x306B,
              0x5206, 0x3051, 0x308B, 0x3053, 0x3068, 0x3092, 0x691C, 0x8A0E, 0x3057, 0x3066,
              0x304F, 0x3060, 0x3055, 0x3044, 0x3002]]\<rparr>"
    by simp
  with r p have 1: "\<exists>r. analyzeText literalEngine
           (replicate 400 0x61 @ [0x3002, 0x20] @ replicate 400 0x61) emptyRules True = Inr r \<and>
         r = \<lparr>mediaScore = 100, ambiguousPhrases_res = [], repetitiveEndings = [],
          mediaSpecificIssues = [],
          improvements =
            [[0x6587, 0x304C, 0x5E73, 0x5747, 0x34, 0x30, 0x31, 0x6587, 0x5B57, 0x3068, 0x9577, 0x3081,
              0x3067, 0x3059, 0x3002, 0x77ED, 0x304F, 0x533A, 0x5207, 0x308B, 0x3053, 0x3068, 0x3092,
              0x691C, 0x8A0E, 0x3057, 0x3066, 0x304F, 0x3060, 0x3055, 0x3044, 0x3002],
             [0x6587, 0x7AE0, 0x304C, 0x8907, 0x96D1, 0x3059, 0x304E, 0x308B, 0x53EF, 0x80FD, 0x6027,
              0x304C, 0x3042, 0x308A, 0x307E, 0x3059, 0x3002, 0x77ED, 0x3044, 0x6587, 0x306B,
              0x5206, 0x3051, 0x308B, 0x3053, 0x3068, 0x3092, 0x691C, 0x8A0E, 0x3057, 0x3066,
              0x304F, 0x3060, 0x3055, 0x3044, 0x3002]]\<rparr> \<and>
         [0x6587, 0x7AE0, 0x304C, 0x8907, 0x96D1, 0x3059, 0x304E, 0x308B, 0x53EF, 0x80FD, 0x6027,
                 0x304C, 0x3042, 0x308A, 0x307E, 0x3059, 0x3002, 0x77ED, 0x3044, 0x6587, 0x306B,
                 0x5206, 0x3051, 0x308B, 0x3053, 0x3068, 0x3092, 0x691C, 0x8A0E, 0x3057, 0x3066,
                 0x304F, 0x3060, 0x3055, 0x3044, 0x3002] \<in> set (improvements r)"
    by blast
  from complexity_advisory [OF h, of "replicate 400 0x61 @ [0x3002, 0x20] @ replicate 399 0x61"]
  have "\<exists>r. analyzeText literalEngine
           (replicate 400 0x61 @ [0x3002, 0x20] @ replicate 399 0x61) emptyRules True = Inr r \<and>
         [0x6587, 0x7AE0, 0x304C, 0x8907, 0x96D1, 0x3059, 0x304E, 0x308B, 0x53EF, 0x80FD, 0x6027,
                 0x304C, 0x3042, 0x308A, 0x307E, 0x3059, 0x3002, 0x77ED, 0x3044, 0x6587, 0x306B,
                 0x5206, 0x3051, 0x308B, 0x3053, 0x3068, 0x3092, 0x691C, 0x8A0E, 0x3057, 0x3066,
                 0x304F, 0x3060, 0x3055, 0x3044, 0x3002] \<notin> set (improvements r)"
    unfolding w t by simp
  then obtain r where r: "analyzeText literalEngine
           (replicate 400 0x61 @ [0x3002, 0x20] @ replicate 399 0x61) emptyRules True = Inr r"
    and p: "[0x6587, 0x7AE0, 0x304C, 0x8907, 0x96D1, 0x3059, 0x304E, 0x308B, 0x53EF, 0x80FD, 0x6027,
                 0x304C, 0x3042, 0x308A, 0x307E, 0x3059, 0x3002, 0x77ED, 0x3044, 0x6587, 0x306B,
                 0x5206, 0x3051, 0x308B, 0x3053, 0x3068, 0x3092, 0x691C, 0x8A0E, 0x3057, 0x3066,
                 0x304F, 0x3060, 0x3055, 0x3044, 0x3002] \<notin> set (improvements r)"
    by blast
  have run: "analyzeText literalEngine (replicate 400 0x61 @ [0x3002, 0x20] @ replicate 399 0x61) emptyRules True =
     Inr \<lparr>mediaScore = 100, ambiguousPhrases_res = [], repetitiveEndings = [],
          mediaSpecificIssues = [],
          improvements =
            [[0x6587, 0x304C, 0x5E73, 0x5747, 0x34, 0x30, 0x31, 0x6587, 0x5B57, 0x3068, 0x9577, 0x3081,
              0x3067, 0x3059, 0x3002, 0x77ED, 0x304F, 0x533A, 0x5207, 0x308B, 0x3053, 0x3068, 0x3092,
              0x691C, 0x8A0E, 0x3057, 0x3066, 0x304F, 0x3060, 0x3055, 0x3044, 0x3002]]\<rparr>"
  proof -
    let ?text = "replicate 400 0x61 @ [0x3002, 0x20] @ replicate 399 0x61 :: jsstring"
    have g: "?text \<noteq> []" "trim ?text \<noteq> []"
      by (simp_all add: trim_def isWhiteSpace_def)
    have a: "\<not> isTerminator 0x61" "\<not> isTerminator 0x20" "isTerminator 0x3002"
      by (simp_all add: isTerminator_def)
    have s2: "split_acc isTerminator [] (0x20 # replicate 399 0x61) = [0x20 # replicate 399 0x61]"
      by (subst split_acc_no_sep) (simp_all add: a)
    have "split_acc isTerminator [] (replicate 400 0x61 @ 0x3002 # (0x20 # replicate 399 0x61)) =
        (rev [] @ replicate 400 0x61) # split_acc isTerminator [] (0x20 # replicate 399 0x61)"
      by (rule split_acc_prefix) (simp_all add: a)
    then have s: "split isTerminator ?text = [replicate 400 0x61, 0x20 # replicate 399 0x61]"
      unfolding s2 by (simp add: split_def)
    have t: "sentences_forEach [replicate 400 0x61, 0x20 # replicate 399 0x61] [] =
        [(replicate 5 0x61, 2)]"
      by (simp add: trim_def isWhiteSpace_def slice_def or_zero_def Let_def)
    have e: "Object_entries [(replicate 5 0x61, 2)] = [(replicate 5 0x61, 2)]"
      by (simp add: Object_entries_def isArrayIndex_def isDigit_def)
    have r: "nat (Math_round (801 / 2)) = 401" by (simp add: Math_round_def)
    show ?thesis
      unfolding analyzeText_def analyzeText_try_def Let_def s t e
      using g
      by (simp add: emptyRules_def emptyResult_def detailedAnalysis_block_def
          averageSentenceLength_def readabilityScore_def removeWhiteSpace_def isWhiteSpace_def
          lengthAdvisory_def complexityAdvisory_def r decimal.simps)
  qed
  from r run have "r = \<lparr>mediaScore = 100, ambiguousPhrases_res = [], repetitiveEndings = [],
          mediaSpecificIssues = [],
          improvements =
            [[0x6587, 0x304C, 0x5E73, 0x5747, 0x34, 0x30, 0x31, 0x6587, 0x5B57, 0x3068, 0x9577, 0x3081,
              0x3067, 0x3059, 0x3002, 0x77ED, 0x304F, 0x533A, 0x5207, 0x308B, 0x3053, 0x3068, 0x3092,
              0x691C, 0x8A0E, 0x3057, 0x3066, 0x304F, 0x3060, 0x3055, 0x3044, 0x3002]]\<rparr>"
    by simp
  with r p have 2: "\<exists>r. analyzeText literalEngine
           (replicate 400 0x61 @ [0x3002, 0x20] @ replicate 399 0x61) emptyRules True = Inr r \<and>
         r = \<lparr>mediaScore = 100, ambiguousPhrases_res = [], repetitiveEndings = [],
          mediaSpecificIssues = [],
          improvements =
            [[0x6587, 0x304C, 0x5E73, 0x5747, 0x34, 0x30, 0x31, 0x6587, 0x5B57, 0x3068, 0x9577, 0x3081,
              0x3067, 0x3059, 0x3002, 0x77ED, 0x304F, 0x533A, 0x5207, 0x308B, 0x3053, 0x3068, 0x3092,
              0x691C, 0x8A0E, 0x3057, 0x3066, 0x304F, 0x3060, 0x3055, 0x3044, 0x3002]]\<rparr> \<and>
         [0x6587, 0x7AE0, 0x304C, 0x8907, 0x96D1, 0x3059, 0x304E, 0x308B, 0x53EF, 0x80FD, 0x6027,
                 0x304C, 0x3042, 0x308A, 0x307E, 0x3059, 0x3002, 0x77ED, 0x3044, 0x6587, 0x306B,
                 0x5206, 0x3051, 0x308B, 0x3053, 0x3068, 0x3092, 0x691C, 0x8A0E, 0x3057, 0x3066,
                 0x304F, 0x3060, 0x3055, 0x3044, 0x3002] \<notin> set (improvements r)"
    by blast
  from h 1 2 show ?thesis by blast
qed

text \<open>
  C8. \<open>getMediaRules\<close> always returns a rule set, and never an error: when the fetch
  fails it returns the rule set with three empty lists, and so it does when the store
  returns no record.
\<close>

theorem getMediaRules_total:
  "(\<exists>rules. getMediaRules db mediaType = Inr rules) \<and>
   (\<forall>err. db (styleRulesQuery mediaType) = Inl err \<longrightarrow>
      getMediaRules db mediaType =
        Inr \<lparr>ambiguousPhrases = [], repetitivePatterns = [], mediaSpecificRules = []\<rparr>) \<and>
   (db (styleRulesQuery mediaType) = Inr [] \<longrightarrow>
      getMediaRules db mediaType =
        Inr \<lparr>ambiguousPhrases = [], repetitivePatterns = [], mediaSpecificRules = []\<rparr>)"
  by (cases "db (styleRulesQuery mediaType)")
    (simp_all add: getMediaRules_def getMediaRules_try_def emptyRules_def)

theorem getMediaRules_total_witness:
  "getMediaRules (\<lambda>q. Inl (ascii ''UNAVAILABLE'')) (Some [0x30D6, 0x30ED, 0x30B0]) =
     Inr \<lparr>ambiguousPhrases = [], repetitivePatterns = [], mediaSpecificRules = []\<rparr> \<and>
   getMediaRules (\<lambda>q. Inr []) None =
     Inr \<lparr>ambiguousPhrases = [], repetitivePatterns = [], mediaSpecificRules = []\<rparr>"
  using getMediaRules_total [of "\<lambda>q. Inl (ascii ''UNAVAILABLE'')" "Some [0x30D6, 0x30ED, 0x30B0]"]
    getMediaRules_total [of "\<lambda>q. Inr []" None]
  by simp

text \<open>
  C9. When the text is not blank and the constructor throws for a pattern of the rule set,
  \<open>analyzeText\<close> throws an error whose message is the fixed text of the source (that an
  error occurred during the analysis of the text, a colon and a space) followed by the
  message of the constructor's exception. It returns no result then, so this outcome is
  not the empty result that the guard returns.
\<close>

theorem analysis_failure:
  assumes "\<not> list_all isWhiteSpace text" and "\<not> patternsCompile E mediaRules"
  shows "\<exists>p msg.
           (p \<in> phrase_text ` set (ambiguousPhrases mediaRules) \<or>
            p \<in> rule_pattern ` set (mediaSpecificRules mediaRules)) \<and>
           RegExp E p [0x67] = Inl msg \<and>
           analyzeText E text mediaRules detailed =
             Inl ([0x30C6, 0x30AD, 0x30B9, 0x30C8, 0x5206, 0x6790, 0x4E2D, 0x306B, 0x30A8,
                   0x30E9, 0x30FC, 0x304C, 0x767A, 0x751F, 0x3057, 0x307E, 0x3057, 0x305F,
                   0x3A, 0x20] @ msg) \<and>
           (\<forall>r. analyzeText E text mediaRules detailed \<noteq> Inr r)"
proof -
  from analyzeText_fail [OF assms, of detailed] obtain p msg
    where p: "p \<in> phrase_text ` set (ambiguousPhrases mediaRules) \<or>
              p \<in> rule_pattern ` set (mediaSpecificRules mediaRules)"
      and c: "RegExp E p flags_g = Inl msg"
      and f: "analyzeText E text mediaRules detailed = Inl (analysisErrorMessage msg)"
    by blast
  from c have c': "RegExp E p [0x67] = Inl msg"
    by (simp only: flags_g_def)
  from f have f': "analyzeText E text mediaRules detailed =
             Inl ([0x30C6, 0x30AD, 0x30B9, 0x30C8, 0x5206, 0x6790, 0x4E2D, 0x306B, 0x30A8,
                   0x30E9, 0x30FC, 0x304C, 0x767A, 0x751F, 0x3057, 0x307E, 0x3057, 0x305F,
                   0x3A, 0x20] @ msg)"
    by (simp only: analysisErrorMessage_def)
  from f' have n: "\<forall>r. analyzeText E text mediaRules detailed \<noteq> Inr r" by simp
  from p c' f' n show ?thesis by blast
qed

theorem analysis_failure_witness:
  "\<not> list_all isWhiteSpace [0x61, 0x62, 0x63] \<and>
   \<not> patternsCompile literalEngine
       \<lparr>ambiguousPhrases = [\<lparr>phrase_text = [0x61], phrase_suggestion = []\<rparr>],
        repetitivePatterns = [],
        mediaSpecificRules = [\<lparr>rule_pattern = [0x28], rule_description = [], rule_mediaType = []\<rparr>]\<rparr> \<and>
   analyzeText literalEngine [0x61, 0x62, 0x63]
     \<lparr>ambiguousPhrases = [\<lparr>phrase_text = [0x61], phrase_suggestion = []\<rparr>],
      repetitivePatterns = [],
      mediaSpecificRules = [\<lparr>rule_pattern = [0x28], rule_description = [], rule_mediaType = []\<rparr>]\<rparr>
     False =
     Inl ([0x30C6, 0x30AD, 0x30B9, 0x30C8, 0x5206, 0x6790, 0x4E2D, 0x306B, 0x30A8, 0x30E9,
           0x30FC, 0x304C, 0x767A, 0x751F, 0x3057, 0x307E, 0x3057, 0x305F, 0x3A, 0x20] @
          ascii ''Invalid regular expression: /(/g: Unterminated group'')"
proof -
  let ?rules = "\<lparr>ambiguousPhrases = [\<lparr>phrase_text = [0x61], phrase_suggestion = []\<rparr>],
        repetitivePatterns = [],
        mediaSpecificRules = [\<lparr>rule_pattern = [0x28], rule_description = [], rule_mediaType = []\<rparr>]\<rparr>"
  have h1: "\<not> list_all isWhiteSpace [0x61, 0x62, 0x63]" by (simp add: isWhiteSpace_def)
  have h2: "\<not> patternsCompile literalEngine ?rules"
    by (simp add: patternsCompile_def literalEngine_compiles isSyntaxCharacter_def)
  have a: "RegExp literalEngine [0x61] [0x67] = Inr [0x61]"
    by (simp add: literalEngine_def isSyntaxCharacter_def)
  have b: "RegExp literalEngine [0x28] [0x67] =
             Inl (ascii ''Invalid regular expression: /(/g: Unterminated group'')"
    using literalEngine_unterminated by (simp add: flags_g_def)
  from analysis_failure [OF h1 h2, of False] a b
  have "analyzeText literalEngine [0x61, 0x62, 0x63] ?rules False =
     Inl ([0x30C6, 0x30AD, 0x30B9, 0x30C8, 0x5206, 0x6790, 0x4E2D, 0x306B, 0x30A8, 0x30E9,
           0x30FC, 0x304C, 0x767A, 0x751F, 0x3057, 0x307E, 0x3057, 0x305F, 0x3A, 0x20] @
          ascii ''Invalid regular expression: /(/g: Unterminated group'')"
    by auto
  moreover
  txt \<open>The run of the model on this input.\<close>
  have "analyzeText literalEngine [0x61, 0x62, 0x63]
     \<lparr>ambiguousPhrases = [\<lparr>phrase_text = [0x61], phrase_suggestion = []\<rparr>],
      repetitivePatterns = [],
      mediaSpecificRules = [\<lparr>rule_pattern = [0x28], rule_description = [], rule_mediaType = []\<rparr>]\<rparr>
     False =
     Inl ([0x30C6, 0x30AD, 0x30B9, 0x30C8, 0x5206, 0x6790, 0x4E2D, 0x306B, 0x30A8, 0x30E9,
           0x30FC, 0x304C, 0x767A, 0x751F, 0x3057, 0x307E, 0x3057, 0x305F, 0x3A, 0x20] @
          ascii ''Invalid regular expression: /(/g: Unterminated group'')"
  proof -
    have g: "[0x61, 0x62, 0x63] \<noteq> ([] :: jsstring)" "trim [0x61, 0x62, 0x63] \<noteq> []"
      by (simp_all add: trim_def isWhiteSpace_def)
    show ?thesis
      unfolding analyzeText_def analyzeText_try_def Let_def
      using g
      by (simp add: emptyResult_def literalEngine_def isSyntaxCharacter_def flags_g_def
          analysisErrorMessage_def ascii_def)
  qed
  ultimately show ?thesis using h1 h2 by blast
qed

text \<open>
  C10. Two rule sets that differ only in \<open>repetitivePatterns\<close> give the same outcome for
  every text and either value of the flag: the analysis never reads that list.
\<close>

theorem repetitivePatterns_unused:
  assumes "ambiguousPhrases rules1 = ambiguousPhrases rules2"
    and "mediaSpecificRules rules1 = mediaSpecificRules rules2"
  shows "analyzeText E text rules1 detailed = analyzeText E text rules2 detailed"
  unfolding analyzeText_def analyzeText_try_def assms by (rule refl)

theorem repetitivePatterns_unused_witness:
  "repetitivePatterns
     \<lparr>ambiguousPhrases = [\<lparr>phrase_text = [0x61], phrase_suggestion = []\<rparr>],
      repetitivePatterns = [\<lparr>rp_pattern = [0x61, 0x62], rp_suggestion = [0x78]\<rparr>],
      mediaSpecificRules = []\<rparr> \<noteq>
   repetitivePatterns
     \<lparr>ambiguousPhrases = [\<lparr>phrase_text = [0x61], phrase_suggestion = []\<rparr>],
      repetitivePatterns = [], mediaSpecificRules = []\<rparr> \<and>
   analyzeText literalEngine [0x61, 0x62, 0x2E, 0x61, 0x62, 0x2E, 0x61, 0x62]
     \<lparr>ambiguousPhrases = [\<lparr>phrase_text = [0x61], phrase_suggestion = []\<rparr>],
      repetitivePatterns = [\<lparr>rp_pattern = [0x61, 0x62], rp_suggestion = [0x78]\<rparr>],
      mediaSpecificRules = []\<rparr> True =
   analyzeText literalEngine [0x61, 0x62, 0x2E, 0x61, 0x62, 0x2E, 0x61, 0x62]
     \<lparr>ambiguousPhrases = [\<lparr>phrase_text = [0x61], phrase_suggestion = []\<rparr>],
      repetitivePatterns = [], mediaSpecificRules = []\<rparr> True"
proof
  show "repetitivePatterns
     \<lparr>ambiguousPhrases = [\<lparr>phrase_text = [0x61], phrase_suggestion = []\<rparr>],
      repetitivePatterns = [\<lparr>rp_pattern = [0x61, 0x62], rp_suggestion = [0x78]\<rparr>],
      mediaSpecificRules = []\<rparr> \<noteq>
   repetitivePatterns
     \<lparr>ambiguousPhrases = [\<lparr>phrase_text = [0x61], phrase_suggestion = []\<rparr>],
      repetitivePatterns = [], mediaSpecificRules = []\<rparr>"
    by simp
  show "analyzeText literalEngine [0x61, 0x62, 0x2E, 0x61, 0x62, 0x2E, 0x61, 0x62]
     \<lparr>ambiguousPhrases = [\<lparr>phrase_text = [0x61], phrase_suggestion = []\<rparr>],
      repetitivePatterns = [\<lparr>rp_pattern = [0x61, 0x62], rp_suggestion = [0x78]\<rparr>],
      mediaSpecificRules = []\<rparr> True =
   analyzeText literalEngine [0x61, 0x62, 0x2E, 0x61, 0x62, 0x2E, 0x61, 0x62]
     \<lparr>ambiguousPhrases = [\<lparr>phrase_text = [0x61], phrase_suggestion = []\<rparr>],
      repetitivePatterns = [], mediaSpecificRules = []\<rparr> True"
    by (rule repetitivePatterns_unused) simp_all
qed

end
